theory Spec2Isabelle
  imports Complex_Main
begin

section \<open>The GlastarJS render engine\<close>

text \<open>
  A shallow embedding of the class \<open>GlastarJS\<close> (the privacy-glass renderer, in its
  version with avatar states and shapes).  JavaScript numbers are modelled as real numbers
  (no rounding, no NaN, no infinities), strings as \<open>string\<close>, an optional key of a partial
  configuration object as an \<open>option\<close> whose \<open>None\<close> is the absent key.  The sizes of
  the two canvases are integers: they are what the canvas element keeps of an assigned
  number.  The WebGL context,
  the 2D context of the composition canvas and the animation-frame scheduler are external:
  every call made on them is appended to a log kept in the engine state, so that
  "which calls did this operation make" is a property of the state.  Reads of the wall clock
  (\<open>Date.now()\<close>) and of the audio analyser are inputs of the frame that makes them.
\<close>

subsection \<open>Configuration types\<close>

datatype TextureType = Arctic | Cathedral | Autumn | Flemish | Ripple | Reeded | Vintage | Forest

datatype AvatarState = Speaking | Listening | Thinking

datatype AvatarShape = Square | Circle

datatype BackgroundType = Color | RadialGradient | LinearGradient | Image

record gradient =
  centerColor :: string
  edgeColor :: string
  angle :: real

text \<open>
  The private \<open>config\<close> field of the class.  Its declared type populates every key but
  \<open>backgroundImage\<close>.  The object spread of \<open>updateConfig\<close> can still store \<open>undefined\<close>
  under a key; this is modelled for \<open>avatarShape\<close>, which \<open>resize\<close> tests against both of its
  values and so handles when it is neither: \<open>None\<close> is \<open>undefined\<close>.
\<close>

record stored_config =
  width :: real
  height :: real
  texture :: TextureType
  glassOpacity :: real
  refractionStrength :: real
  blurAmount :: real
  fps :: real
  avatarColor :: string
  avatarSize :: real
  avatarSensitivity :: real
  avatarExpansion :: real
  avatarSmoothing :: real
  avatarFadeWithAudio :: bool
  avatarState :: AvatarState
  avatarShape :: "AvatarShape option"
  backgroundColor :: string
  backgroundType :: BackgroundType
  backgroundGradient :: gradient
  backgroundImage :: "string option"
  backgroundRotation :: bool
  backgroundRotationSpeed :: real
  backgroundScale :: real

text \<open>
  \<open>Partial<GlasatarConfig>\<close>, the argument of the constructor and of \<open>updateConfig\<close>.
  The gradient of a patch may itself lack keys (the code reads each with a fallback).
  For \<open>backgroundImage\<close> and \<open>avatarShape\<close> a patch distinguishes the absent key
  (\<open>None\<close>) from the key set to \<open>undefined\<close> (\<open>Some None\<close>); every other key of a patch
  is absent or carries a value of its type.
  The listening and thinking animation settings belong to the interface; the renderer
  never reads them.
\<close>

record partial_gradient =
  g_centerColor :: "string option"
  g_edgeColor :: "string option"
  g_angle :: "real option"

record partial_config =
  p_width :: "real option"
  p_height :: "real option"
  p_texture :: "TextureType option"
  p_glassOpacity :: "real option"
  p_refractionStrength :: "real option"
  p_blurAmount :: "real option"
  p_fps :: "real option"
  p_avatarColor :: "string option"
  p_avatarSize :: "real option"
  p_avatarSensitivity :: "real option"
  p_avatarExpansion :: "real option"
  p_avatarSmoothing :: "real option"
  p_avatarFadeWithAudio :: "bool option"
  p_avatarState :: "AvatarState option"
  p_avatarShape :: "AvatarShape option option"
  p_listeningPulseBase :: "real option"
  p_listeningPulseAmplitude :: "real option"
  p_listeningPulseSpeed :: "real option"
  p_thinkingBorderWidth :: "real option"
  p_thinkingBorderSpeed :: "real option"
  p_thinkingBorderLength :: "real option"
  p_thinkingBorderTrailSegments :: "real option"
  p_backgroundColor :: "string option"
  p_backgroundType :: "BackgroundType option"
  p_backgroundGradient :: "partial_gradient option"
  p_backgroundImage :: "string option option"
  p_backgroundRotation :: "bool option"
  p_backgroundRotationSpeed :: "real option"
  p_backgroundScale :: "real option"

text \<open>The empty object \<open>{}\<close>, the default argument of the constructor.\<close>

definition empty_config :: partial_config where
  "empty_config =
     \<lparr> p_width = None, p_height = None, p_texture = None, p_glassOpacity = None,
       p_refractionStrength = None, p_blurAmount = None, p_fps = None,
       p_avatarColor = None, p_avatarSize = None, p_avatarSensitivity = None,
       p_avatarExpansion = None, p_avatarSmoothing = None, p_avatarFadeWithAudio = None,
       p_avatarState = None, p_avatarShape = None,
       p_listeningPulseBase = None, p_listeningPulseAmplitude = None,
       p_listeningPulseSpeed = None, p_thinkingBorderWidth = None,
       p_thinkingBorderSpeed = None, p_thinkingBorderLength = None,
       p_thinkingBorderTrailSegments = None,
       p_backgroundColor = None, p_backgroundType = None, p_backgroundGradient = None,
       p_backgroundImage = None, p_backgroundRotation = None,
       p_backgroundRotationSpeed = None, p_backgroundScale = None \<rparr>"

definition empty_gradient :: partial_gradient where
  "empty_gradient = \<lparr> g_centerColor = None, g_edgeColor = None, g_angle = None \<rparr>"

subsection \<open>The defaulting operators of JavaScript\<close>

text \<open>\<open>x || d\<close> on a number: the fallback replaces an absent key and the falsy number 0.\<close>

definition num_or :: "real option \<Rightarrow> real \<Rightarrow> real" where
  "num_or x d = (case x of None \<Rightarrow> d | Some v \<Rightarrow> if v = 0 then d else v)"

text \<open>\<open>x || d\<close> on a string: the fallback replaces an absent key and the empty string.\<close>

definition str_or :: "string option \<Rightarrow> string \<Rightarrow> string" where
  "str_or x d = (case x of None \<Rightarrow> d | Some v \<Rightarrow> if v = [] then d else v)"

text \<open>\<open>x || d\<close> on a boolean.\<close>

definition bool_or :: "bool option \<Rightarrow> bool \<Rightarrow> bool" where
  "bool_or x d = (case x of None \<Rightarrow> d | Some v \<Rightarrow> if v then v else d)"

text \<open>
  \<open>x ?? d\<close>: the fallback replaces an absent key only.  It is also \<open>x || d\<close> on the
  enumerations, whose values are non-empty strings.
\<close>

definition nullish :: "'a option \<Rightarrow> 'a \<Rightarrow> 'a" where
  "nullish x d = (case x of None \<Rightarrow> d | Some v \<Rightarrow> v)"

fun TEXTURE_MAP :: "TextureType \<Rightarrow> int" where
  "TEXTURE_MAP Arctic = 0"
| "TEXTURE_MAP Cathedral = 1"
| "TEXTURE_MAP Autumn = 2"
| "TEXTURE_MAP Flemish = 3"
| "TEXTURE_MAP Ripple = 4"
| "TEXTURE_MAP Reeded = 5"
| "TEXTURE_MAP Vintage = 6"
| "TEXTURE_MAP Forest = 7"

subsection \<open>Default resolution in the constructor\<close>

text \<open>The object literal assigned to \<open>this.config\<close> by the constructor.\<close>

definition initial_config :: "partial_config \<Rightarrow> stored_config" where
  "initial_config c =
     (let w = num_or (p_width c) 800;
          h = (if p_avatarShape c = Some (Some Circle) \<or> p_avatarShape c = Some (Some Square)
               then w else num_or (p_height c) 600)
      in \<lparr> width = w,
           height = h,
           texture = nullish (p_texture c) Arctic,
           glassOpacity = num_or (p_glassOpacity c) (95 / 100),
           refractionStrength = num_or (p_refractionStrength c) 1,
           blurAmount = num_or (p_blurAmount c) 3,
           fps = num_or (p_fps c) 60,
           avatarColor = str_or (p_avatarColor c) ''#4A90E2'',
           avatarSize = num_or (p_avatarSize c) 80,
           avatarSensitivity = num_or (p_avatarSensitivity c) 1,
           avatarExpansion = num_or (p_avatarExpansion c) 2,
           avatarSmoothing = num_or (p_avatarSmoothing c) (25 / 100),
           avatarFadeWithAudio = bool_or (p_avatarFadeWithAudio c) False,
           avatarState = nullish (p_avatarState c) Speaking,
           avatarShape =
             Some (nullish (case p_avatarShape c of None \<Rightarrow> None | Some v \<Rightarrow> v) Square),
           backgroundColor = str_or (p_backgroundColor c) ''#000000'',
           backgroundType = nullish (p_backgroundType c) Color,
           backgroundGradient =
             \<lparr> centerColor =
                 str_or (case p_backgroundGradient c of None \<Rightarrow> None
                         | Some g \<Rightarrow> g_centerColor g) ''#4A90E2'',
               edgeColor =
                 str_or (case p_backgroundGradient c of None \<Rightarrow> None
                         | Some g \<Rightarrow> g_edgeColor g) ''#1a1a2e'',
               angle =
                 nullish (case p_backgroundGradient c of None \<Rightarrow> None
                          | Some g \<Rightarrow> g_angle g) 45 \<rparr>,
           backgroundImage = (case p_backgroundImage c of None \<Rightarrow> None | Some v \<Rightarrow> v),
           backgroundRotation = nullish (p_backgroundRotation c) True,
           backgroundRotationSpeed =
             (if p_backgroundRotation c = Some False then 0
              else nullish (p_backgroundRotationSpeed c) 10),
           backgroundScale = num_or (p_backgroundScale c) 1 \<rparr>)"

subsection \<open>The engine state\<close>

text \<open>
  A handle of a GPU object or of the analyser; \<open>None\<close> is JavaScript's \<open>null\<close>.
\<close>

datatype handle = Handle

text \<open>The calls on the WebGL context, in the order the code makes them.\<close>

datatype gl_call =
    CreateShader | ShaderSource | CompileShader | GetShaderParameter | DeleteShader
  | CreateProgram | AttachShader | LinkProgram | GetProgramParameter
  | CreateBuffer | BindBuffer | BufferData | GetUniformLocation string
  | Viewport real real real real
  | CreateTexture | BindTexture | TexParameteri | TexImage2D
  | ClearColor | Clear | Enable | BlendFunc | UseProgram
  | Uniform1i string int | Uniform2f string real real | Uniform1f string real
  | ActiveTexture | GetAttribLocation string | EnableVertexAttribArray
  | VertexAttribPointer | DrawArrays
  | DeleteProgram | DeleteBuffer | DeleteTexture

text \<open>
  The calls on the 2D context of the composition canvas.  The bodies of \<open>drawBackground\<close>,
  \<open>drawAvatarCircle\<close>, \<open>drawThinkingBorderCircle\<close> and \<open>drawThinkingBorderSquare\<close> only
  paint (they assign no field of the engine), so each is one entry carrying its arguments.
  The opacity of the avatar circle is \<open>None\<close> where JavaScript computes NaN.
\<close>

datatype ctx_call =
    DrawBackground real real
  | DrawAvatarCircle real real real "real option"
  | DrawThinkingBorderCircle real real real real real real
  | DrawThinkingBorderSquare real real real real
  | CtxSave | CtxRestore | SetGlobalAlpha real

text \<open>
  The object passed to \<open>JSON.stringify\<close> in \<open>drawAvatar\<close>.  Serialisation is injective
  on these values, so two serialisations are equal exactly when the records are; the
  initial \<open>lastBackgroundConfig\<close>, the empty string, is the serialisation of none
  (\<open>None\<close>).
\<close>

record background_signature =
  sig_type :: BackgroundType
  sig_color :: string
  sig_gradient :: gradient
  sig_image :: "string option"
  sig_rotation :: bool
  sig_speed :: real
  sig_scale :: real
  sig_state :: AvatarState

record engine =
  canvas_width :: int
  canvas_height :: int
  program :: "handle option"
  config :: stored_config
  audioAnalyzer :: "handle option"
  animationId :: "nat option"
  isDisposed :: bool
  positionBuffer :: "handle option"
  texCoordBuffer :: "handle option"
  backgroundTexture :: "handle option"
  backgroundCanvas_width :: int
  backgroundCanvas_height :: int
  smoothedAudioLevel :: real
  backgroundImageElement :: "string option"
  startTime :: real
  backgroundDirty :: bool
  lastBackgroundConfig :: "background_signature option"
  textureNeedsUpdate :: bool
  lastAvatarSize :: real
  thinkingAnimationTime :: real
  currentState :: AvatarState
  targetState :: AvatarState
  stateTransitionProgress :: real
  stateTransitionStartTime :: real
  glLog :: "gl_call list"
  ctxLog :: "ctx_call list"
  frameRequests :: nat
  frameCancels :: "nat list"

text \<open>
  \<open>backgroundImageElement\<close> holds the \<open>src\<close> of the image whose load is in flight or done.
  \<open>frameRequests\<close> counts the calls of \<open>requestAnimationFrame\<close>, which returns a fresh
  non-zero id; \<open>frameCancels\<close> lists the ids given to \<open>cancelAnimationFrame\<close>.
\<close>

subsection \<open>The size attributes of a canvas\<close>

text \<open>
  The conversion of a number to an \<open>unsigned long\<close>: truncation towards zero, then the
  residue modulo \<open>2\<^sup>3\<^sup>2\<close>.
\<close>

definition ToUint32 :: "real \<Rightarrow> int" where
  "ToUint32 x = (if x < 0 then \<lceil>x\<rceil> else \<lfloor>x\<rfloor>) mod 4294967296"

text \<open>
  \<open>canvas.width = x\<close> and \<open>canvas.height = x\<close>.  Both attributes of an HTML canvas are
  \<open>unsigned long\<close> and reflect a content attribute with a default, 300 for the width and
  150 for the height: the assigned number is converted, and a result above
  \<open>2\<^sup>3\<^sup>1 - 1\<close> is replaced by the default.
\<close>

definition canvas_size :: "int \<Rightarrow> real \<Rightarrow> int" where
  "canvas_size fallback x =
     (let v = ToUint32 x in if v \<le> 2147483647 then v else fallback)"

definition set_width :: "real \<Rightarrow> int" where
  "set_width x = canvas_size 300 x"

definition set_height :: "real \<Rightarrow> int" where
  "set_height x = canvas_size 150 x"

subsection \<open>Resize\<close>

definition resize :: "real \<Rightarrow> real option \<Rightarrow> engine \<Rightarrow> engine" where
  "resize w h s =
     (let effectiveHeight =
            (if avatarShape (config s) = Some Circle \<or> avatarShape (config s) = Some Square
             then w else num_or h w)
      in s \<lparr> canvas_width := set_width w,
             canvas_height := set_height effectiveHeight,
             backgroundCanvas_width := set_width w,
             backgroundCanvas_height := set_height effectiveHeight,
             glLog := glLog s @ [Viewport 0 0 w effectiveHeight],
             config := (config s) \<lparr> width := w, height := effectiveHeight \<rparr>,
             backgroundDirty := True \<rparr>)"

subsection \<open>Construction\<close>

text \<open>
  What the host answers during construction: the size of the canvas it passes, whether a
  WebGL context is obtained, whether each shader is created and compiles, whether the
  program is created and links, and the clock reading that initialises \<open>startTime\<close>.
\<close>

record host =
  host_canvas_width :: int
  host_canvas_height :: int
  webgl_supported :: bool
  vertex_shader_ok :: bool
  fragment_shader_ok :: bool
  program_created :: bool
  program_linked :: bool
  clock_at_construction :: real

datatype error =
    WebGLNotSupported | FailedToCreateShaders | FailedToCreateProgram | ProgramLinkingError

text \<open>
  The field initialisers of the class and the first statements of the constructor.  The
  drawing canvas keeps the size the host gave it until \<open>resize\<close> runs at the end of
  \<open>setupWebGL\<close>.
\<close>

definition fresh_engine :: "host \<Rightarrow> partial_config \<Rightarrow> engine" where
  "fresh_engine env c =
     \<lparr> canvas_width = host_canvas_width env, canvas_height = host_canvas_height env,
       program = None,
       config = initial_config c,
       audioAnalyzer = None,
       animationId = None,
       isDisposed = False,
       positionBuffer = None,
       texCoordBuffer = None,
       backgroundTexture = None,
       backgroundCanvas_width = set_width (width (initial_config c)),
       backgroundCanvas_height = set_height (height (initial_config c)),
       smoothedAudioLevel = 0,
       backgroundImageElement = None,
       startTime = clock_at_construction env,
       backgroundDirty = True,
       lastBackgroundConfig = None,
       textureNeedsUpdate = True,
       lastAvatarSize = 0,
       thinkingAnimationTime = 0,
       currentState = Speaking,
       targetState = Speaking,
       stateTransitionProgress = 1,
       stateTransitionStartTime = 0,
       glLog = [], ctxLog = [], frameRequests = 0, frameCancels = [] \<rparr>"

text \<open>The calls of one successful \<open>createShader\<close>.\<close>

definition createShader_calls :: "gl_call list" where
  "createShader_calls = [CreateShader, ShaderSource, CompileShader, GetShaderParameter]"

definition setupWebGL :: "host \<Rightarrow> engine \<Rightarrow> error + engine" where
  "setupWebGL env s =
     (if \<not> vertex_shader_ok env \<or> \<not> fragment_shader_ok env then Inl FailedToCreateShaders
      else if \<not> program_created env then Inl FailedToCreateProgram
      else if \<not> program_linked env then Inl ProgramLinkingError
      else Inr (resize (width (config s)) (Some (height (config s)))
             (s \<lparr> program := Some Handle,
                  positionBuffer := Some Handle,
                  texCoordBuffer := Some Handle,
                  glLog := glLog s @ createShader_calls @ createShader_calls @
                    [CreateProgram, AttachShader, AttachShader, LinkProgram,
                     GetProgramParameter, DeleteShader, DeleteShader,
                     CreateBuffer, BindBuffer, BufferData,
                     CreateBuffer, BindBuffer, BufferData,
                     GetUniformLocation ''u_backgroundTexture'',
                     GetUniformLocation ''u_resolution'',
                     GetUniformLocation ''u_opacity'',
                     GetUniformLocation ''u_refraction'',
                     GetUniformLocation ''u_texture'',
                     GetUniformLocation ''u_blurAmount''] \<rparr>)))"

definition createBackgroundTexture :: "engine \<Rightarrow> engine" where
  "createBackgroundTexture s =
     s \<lparr> backgroundTexture := Some Handle,
         glLog := glLog s @ [CreateTexture, BindTexture, TexParameteri, TexParameteri,
                             TexParameteri, TexParameteri] \<rparr>"

text \<open>\<open>new GlastarJS(canvas, config)\<close>: the engine, or the error thrown.\<close>

definition construct :: "host \<Rightarrow> partial_config \<Rightarrow> error + engine" where
  "construct env c =
     (if \<not> webgl_supported env then Inl WebGLNotSupported
      else case setupWebGL env (fresh_engine env c) of
             Inl e \<Rightarrow> Inl e
           | Inr s \<Rightarrow> Inr (createBackgroundTexture s))"

text \<open>A host on which construction succeeds.\<close>

definition good_host :: host where
  "good_host = \<lparr> host_canvas_width = 800, host_canvas_height = 600,
                 webgl_supported = True, vertex_shader_ok = True, fragment_shader_ok = True,
                 program_created = True, program_linked = True,
                 clock_at_construction = 1000 \<rparr>"

subsection \<open>Configuration update\<close>

definition loadBackgroundImage :: "engine \<Rightarrow> engine" where
  "loadBackgroundImage s =
     (case backgroundImage (config s) of
        None \<Rightarrow> s \<lparr> backgroundImageElement := None \<rparr>
      | Some url \<Rightarrow>
          if url = [] then s \<lparr> backgroundImageElement := None \<rparr>
          else s \<lparr> backgroundImageElement := Some url \<rparr>)"

text \<open>
  The object spread \<open>{...this.config, ...config, backgroundGradient: ...}\<close>: a key present in
  the patch replaces the stored value, whatever its value; the gradient is rebuilt key by
  key, each with its fallback to the stored gradient.
\<close>

definition merge_gradient :: "gradient \<Rightarrow> partial_gradient option \<Rightarrow> gradient" where
  "merge_gradient old g =
     (case g of
        None \<Rightarrow> old
      | Some n \<Rightarrow> \<lparr> centerColor = str_or (g_centerColor n) (centerColor old),
                    edgeColor = str_or (g_edgeColor n) (edgeColor old),
                    angle = nullish (g_angle n) (angle old) \<rparr>)"

definition merge_config :: "stored_config \<Rightarrow> partial_config \<Rightarrow> stored_config" where
  "merge_config old c =
     \<lparr> width = nullish (p_width c) (width old),
       height = nullish (p_height c) (height old),
       texture = nullish (p_texture c) (texture old),
       glassOpacity = nullish (p_glassOpacity c) (glassOpacity old),
       refractionStrength = nullish (p_refractionStrength c) (refractionStrength old),
       blurAmount = nullish (p_blurAmount c) (blurAmount old),
       fps = nullish (p_fps c) (fps old),
       avatarColor = nullish (p_avatarColor c) (avatarColor old),
       avatarSize = nullish (p_avatarSize c) (avatarSize old),
       avatarSensitivity = nullish (p_avatarSensitivity c) (avatarSensitivity old),
       avatarExpansion = nullish (p_avatarExpansion c) (avatarExpansion old),
       avatarSmoothing = nullish (p_avatarSmoothing c) (avatarSmoothing old),
       avatarFadeWithAudio = nullish (p_avatarFadeWithAudio c) (avatarFadeWithAudio old),
       avatarState = nullish (p_avatarState c) (avatarState old),
       avatarShape = nullish (p_avatarShape c) (avatarShape old),
       backgroundColor = nullish (p_backgroundColor c) (backgroundColor old),
       backgroundType = nullish (p_backgroundType c) (backgroundType old),
       backgroundGradient = merge_gradient (backgroundGradient old) (p_backgroundGradient c),
       backgroundImage = nullish (p_backgroundImage c) (backgroundImage old),
       backgroundRotation = nullish (p_backgroundRotation c) (backgroundRotation old),
       backgroundRotationSpeed =
         nullish (p_backgroundRotationSpeed c) (backgroundRotationSpeed old),
       backgroundScale = nullish (p_backgroundScale c) (backgroundScale old) \<rparr>"

text \<open>\<open>backgroundKeys.some(key => hasOwnProperty(config, key))\<close>.\<close>

definition has_background_key :: "partial_config \<Rightarrow> bool" where
  "has_background_key c =
     (p_backgroundColor c \<noteq> None \<or> p_backgroundType c \<noteq> None \<or>
      p_backgroundGradient c \<noteq> None \<or> p_backgroundImage c \<noteq> None \<or>
      p_backgroundRotation c \<noteq> None \<or> p_backgroundRotationSpeed c \<noteq> None \<or>
      p_backgroundScale c \<noteq> None)"

definition updateConfig :: "partial_config \<Rightarrow> engine \<Rightarrow> engine" where
  "updateConfig c s =
     (let s1 = s \<lparr> config := merge_config (config s) c \<rparr>;
          s2 = (if has_background_key c then s1 \<lparr> backgroundDirty := True \<rparr> else s1);
          s3 = (if p_width c \<noteq> None \<or> p_height c \<noteq> None
                then (resize (width (config s2)) (Some (height (config s2))) s2)
                       \<lparr> backgroundDirty := True \<rparr>
                else s2)
      in case p_backgroundImage c of
           Some (Some url) \<Rightarrow> loadBackgroundImage s3
         | _ \<Rightarrow> s3)"

subsection \<open>The state transition\<close>

text \<open>
  What one frame reads from outside: the level the analyser returns (read only when an
  analyser is connected), the clock reading taken when a transition starts, and the clock
  reading from which the elapsed time of the transition is computed.
\<close>

record frame =
  audio_level :: real
  clock_transition :: real
  clock_progress :: real

text \<open>The field \<open>stateTransitionDuration\<close> is initialised to 500 ms and never assigned.\<close>

definition stateTransitionDuration :: real where
  "stateTransitionDuration = 500"

definition easeInOutCubic :: "real \<Rightarrow> real" where
  "easeInOutCubic t = (if t < 1 / 2 then 4 * t * t * t else 1 - (- 2 * t + 2) ^ 3 / 2)"

definition updateStateTransition :: "frame \<Rightarrow> engine \<Rightarrow> engine" where
  "updateStateTransition f s =
     (let s1 = (if avatarState (config s) \<noteq> targetState s
                then s \<lparr> currentState := targetState s,
                         targetState := avatarState (config s),
                         stateTransitionProgress := 0,
                         stateTransitionStartTime := clock_transition f \<rparr>
                else s)
      in if stateTransitionProgress s1 < 1
         then (let elapsed = clock_progress f - stateTransitionStartTime s1;
                   p = easeInOutCubic (min 1 (elapsed / stateTransitionDuration));
                   s2 = s1 \<lparr> stateTransitionProgress := p, textureNeedsUpdate := True \<rparr>
               in if p = 1 then s2 \<lparr> currentState := targetState s2 \<rparr> else s2)
         else s1)"

subsection \<open>Drawing the avatar layer\<close>

definition drawBackground :: "real \<Rightarrow> real \<Rightarrow> engine \<Rightarrow> engine" where
  "drawBackground w h s = s \<lparr> ctxLog := ctxLog s @ [DrawBackground w h] \<rparr>"

definition drawAvatarCircle ::
  "real \<Rightarrow> real \<Rightarrow> real \<Rightarrow> real option \<Rightarrow> engine \<Rightarrow> engine" where
  "drawAvatarCircle cx cy sz opacity s =
     s \<lparr> ctxLog := ctxLog s @ [DrawAvatarCircle cx cy sz opacity] \<rparr>"

text \<open>
  \<open>Math.max(0, Math.min(1, Math.pow(scaledLevel, 0.3)))\<close>; the power of a negative level
  is NaN, and so is the result.
\<close>

definition fade_opacity :: "real \<Rightarrow> real option" where
  "fade_opacity scaledLevel =
     (if scaledLevel < 0 then None
      else Some (max 0 (min 1 (scaledLevel powr (3 / 10)))))"

definition drawSpeakingAvatar :: "real \<Rightarrow> real \<Rightarrow> real \<Rightarrow> real \<Rightarrow> engine \<Rightarrow> engine" where
  "drawSpeakingAvatar cx cy baseSize transitionOpacity s =
     (let maxExpansionSize = baseSize * avatarExpansion (config s);
          expandedSize = baseSize + smoothedAudioLevel s * (maxExpansionSize - baseSize);
          avatarOpacity = (if avatarFadeWithAudio (config s)
                           then fade_opacity (smoothedAudioLevel s * 8) else Some 1);
          s1 = drawAvatarCircle cx cy expandedSize
                 (map_option (\<lambda>opacity. opacity * transitionOpacity) avatarOpacity) s;
          s2 = (if \<bar>expandedSize - lastAvatarSize s1\<bar> > 1 / 2 \<or>
                   (case avatarOpacity of None \<Rightarrow> False
                    | Some opacity \<Rightarrow> \<bar>opacity - 1\<bar> > 1 / 100)
                then s1 \<lparr> textureNeedsUpdate := True \<rparr> else s1)
      in s2 \<lparr> lastAvatarSize := expandedSize \<rparr>)"

definition drawListeningAvatar :: "real \<Rightarrow> real \<Rightarrow> real \<Rightarrow> engine \<Rightarrow> engine" where
  "drawListeningAvatar cx cy baseSize s = s \<lparr> textureNeedsUpdate := True \<rparr>"

definition drawThinkingBorder ::
  "real \<Rightarrow> real \<Rightarrow> real \<Rightarrow> real \<Rightarrow> real \<Rightarrow> real \<Rightarrow> engine \<Rightarrow> engine" where
  "drawThinkingBorder cx cy baseSize w h transitionOpacity s =
     (if avatarShape (config s) = Some Circle
      then s \<lparr> ctxLog := ctxLog s @
                  [DrawThinkingBorderCircle cx cy w h transitionOpacity
                     (thinkingAnimationTime s)] \<rparr>
      else s \<lparr> ctxLog := ctxLog s @
                  [DrawThinkingBorderSquare w h transitionOpacity
                     (thinkingAnimationTime s)] \<rparr>)"

definition drawThinkingAvatar ::
  "real \<Rightarrow> real \<Rightarrow> real \<Rightarrow> real \<Rightarrow> real \<Rightarrow> real \<Rightarrow> engine \<Rightarrow> engine" where
  "drawThinkingAvatar cx cy baseSize w h transitionOpacity s =
     (drawThinkingBorder cx cy baseSize w h transitionOpacity s)
       \<lparr> textureNeedsUpdate := True \<rparr>"

fun drawAvatarState ::
  "real \<Rightarrow> real \<Rightarrow> real \<Rightarrow> real \<Rightarrow> real \<Rightarrow> AvatarState \<Rightarrow> real \<Rightarrow> engine \<Rightarrow> engine" where
  "drawAvatarState cx cy baseSize w h Speaking opacity s =
     drawSpeakingAvatar cx cy baseSize opacity s"
| "drawAvatarState cx cy baseSize w h Listening opacity s =
     drawListeningAvatar cx cy baseSize s"
| "drawAvatarState cx cy baseSize w h Thinking opacity s =
     drawThinkingAvatar cx cy baseSize w h opacity s"

definition currentBackgroundConfig :: "stored_config \<Rightarrow> background_signature" where
  "currentBackgroundConfig c =
     \<lparr> sig_type = backgroundType c,
       sig_color = backgroundColor c,
       sig_gradient = backgroundGradient c,
       sig_image = backgroundImage c,
       sig_rotation = backgroundRotation c,
       sig_speed = backgroundRotationSpeed c,
       sig_scale = backgroundScale c,
       sig_state = avatarState c \<rparr>"

definition ctx_call :: "ctx_call \<Rightarrow> engine \<Rightarrow> engine" where
  "ctx_call c s = s \<lparr> ctxLog := ctxLog s @ [c] \<rparr>"

definition drawAvatar :: "real \<Rightarrow> frame \<Rightarrow> engine \<Rightarrow> engine" where
  "drawAvatar audioLevel f s =
     (let w = real_of_int (backgroundCanvas_width s);
          h = real_of_int (backgroundCanvas_height s);
          s1 = s \<lparr> thinkingAnimationTime := thinkingAnimationTime s + 16 \<rparr>;
          s2 = updateStateTransition f s1;
          effectiveAudioLevel =
            (if targetState s2 = Speaking then audioLevel
             else if currentState s2 = Speaking \<and> stateTransitionProgress s2 < 1
             then audioLevel * (1 - stateTransitionProgress s2)
             else 0);
          targetLevel = effectiveAudioLevel * avatarSensitivity (config s2);
          s3 = s2 \<lparr> smoothedAudioLevel :=
                      smoothedAudioLevel s2 +
                      (targetLevel - smoothedAudioLevel s2) * avatarSmoothing (config s2) \<rparr>;
          cur = currentBackgroundConfig (config s3);
          s4 = (if backgroundDirty s3 \<or> lastBackgroundConfig s3 \<noteq> Some cur \<or>
                   backgroundRotation (config s3) \<or> avatarState (config s3) = Thinking
                then (drawBackground w h s3)
                       \<lparr> backgroundDirty := False,
                         lastBackgroundConfig := Some cur,
                         textureNeedsUpdate := True \<rparr>
                else s3);
          cx = w / 2;
          cy = h / 2;
          baseSize = avatarSize (config s4)
      in if stateTransitionProgress s4 = 1
         then drawAvatarState cx cy baseSize w h (targetState s4) 1 s4
         else (let s5 = ctx_call CtxSave s4;
                   s6 = (if currentState s5 \<noteq> targetState s5
                         then drawAvatarState cx cy baseSize w h (currentState s5)
                                (1 - stateTransitionProgress s5)
                                (ctx_call (SetGlobalAlpha (1 - stateTransitionProgress s5)) s5)
                         else s5);
                   s7 = drawAvatarState cx cy baseSize w h (targetState s6)
                          (stateTransitionProgress s6)
                          (ctx_call (SetGlobalAlpha (stateTransitionProgress s6)) s6)
               in ctx_call CtxRestore s7))"

subsection \<open>The tick, and the lifecycle\<close>

definition render_calls :: "engine \<Rightarrow> gl_call list" where
  "render_calls s =
     [ClearColor, Clear, Enable, BlendFunc, UseProgram,
      Uniform1i ''u_backgroundTexture'' 0,
      Uniform2f ''u_resolution'' (real_of_int (canvas_width s)) (real_of_int (canvas_height s)),
      Uniform1f ''u_opacity'' (glassOpacity (config s)),
      Uniform1f ''u_refraction'' (refractionStrength (config s)),
      Uniform1i ''u_texture'' (TEXTURE_MAP (texture (config s))),
      Uniform1f ''u_blurAmount'' (blurAmount (config s)),
      ActiveTexture, BindTexture,
      GetAttribLocation ''a_position'', GetAttribLocation ''a_texCoord'',
      BindBuffer, EnableVertexAttribArray, VertexAttribPointer,
      BindBuffer, EnableVertexAttribArray, VertexAttribPointer,
      DrawArrays]"

definition requestAnimationFrame :: "engine \<Rightarrow> engine" where
  "requestAnimationFrame s =
     s \<lparr> animationId := Some (Suc (frameRequests s)),
         frameRequests := Suc (frameRequests s) \<rparr>"

definition render :: "frame \<Rightarrow> engine \<Rightarrow> engine" where
  "render f s =
     (if program s = None \<or> isDisposed s then s
      else (let level = (case audioAnalyzer s of None \<Rightarrow> 0 | Some a \<Rightarrow> audio_level f);
                s1 = drawAvatar level f s;
                s2 = (if textureNeedsUpdate s1
                      then s1 \<lparr> glLog := glLog s1 @ [BindTexture, TexImage2D],
                                textureNeedsUpdate := False \<rparr>
                      else s1);
                s3 = s2 \<lparr> glLog := glLog s2 @ render_calls s2 \<rparr>
            in if \<not> isDisposed s3 then requestAnimationFrame s3 else s3))"

definition start :: "frame \<Rightarrow> engine \<Rightarrow> engine" where
  "start f s = (if animationId s = None \<or> animationId s = Some 0 then render f s else s)"

definition stop :: "engine \<Rightarrow> engine" where
  "stop s =
     (case animationId s of
        None \<Rightarrow> s
      | Some i \<Rightarrow> if i = 0 then s
                  else s \<lparr> frameCancels := frameCancels s @ [i], animationId := None \<rparr>)"

definition connectAudioStream :: "engine \<Rightarrow> engine" where
  "connectAudioStream s = s \<lparr> audioAnalyzer := Some Handle \<rparr>"

definition dispose :: "engine \<Rightarrow> engine" where
  "dispose s =
     (let s1 = stop (s \<lparr> isDisposed := True \<rparr>);
          s2 = s1 \<lparr> audioAnalyzer := None \<rparr>;
          s3 = (if program s2 \<noteq> None
                then s2 \<lparr> glLog := glLog s2 @ [DeleteProgram], program := None \<rparr> else s2);
          s4 = (if positionBuffer s3 \<noteq> None
                then s3 \<lparr> glLog := glLog s3 @ [DeleteBuffer], positionBuffer := None \<rparr>
                else s3);
          s5 = (if texCoordBuffer s4 \<noteq> None
                then s4 \<lparr> glLog := glLog s4 @ [DeleteBuffer], texCoordBuffer := None \<rparr>
                else s4);
          s6 = (if backgroundTexture s5 \<noteq> None
                then s5 \<lparr> glLog := glLog s5 @ [DeleteTexture], backgroundTexture := None \<rparr>
                else s5)
      in s6 \<lparr> backgroundImageElement := None,
              backgroundCanvas_width := set_width 0,
              backgroundCanvas_height := set_height 0 \<rparr>)"

text \<open>
  The calls a host can make on an engine, and a tick of the scheduler firing
  (the callback registered with \<open>requestAnimationFrame\<close> is \<open>render\<close>).
\<close>

datatype operation =
    UpdateConfig partial_config
  | Resize real "real option"
  | Start frame
  | Stop
  | Dispose
  | ConnectAudioStream
  | Tick frame

fun apply_operation :: "operation \<Rightarrow> engine \<Rightarrow> engine" where
  "apply_operation (UpdateConfig c) s = updateConfig c s"
| "apply_operation (Resize w h) s = resize w h s"
| "apply_operation (Start f) s = start f s"
| "apply_operation Stop s = stop s"
| "apply_operation Dispose s = dispose s"
| "apply_operation ConnectAudioStream s = connectAudioStream s"
| "apply_operation (Tick f) s = render f s"

fun run :: "operation list \<Rightarrow> engine \<Rightarrow> engine" where
  "run [] s = s"
| "run (operation # rest) s = run rest (apply_operation operation s)"

subsection \<open>The frame, block by block\<close>

text \<open>
  The three blocks of \<open>drawAvatar\<close> that follow the state transition, each as a function
  of the state it finds: the audio block, the background block and the avatar block.
  Lemma \<open>drawAvatar_stages\<close> below shows that \<open>drawAvatar\<close> is their composition.
\<close>

definition smoothAudioLevel :: "real \<Rightarrow> engine \<Rightarrow> engine" where
  "smoothAudioLevel audioLevel s2 =
     (let effectiveAudioLevel =
            (if targetState s2 = Speaking then audioLevel
             else if currentState s2 = Speaking \<and> stateTransitionProgress s2 < 1
             then audioLevel * (1 - stateTransitionProgress s2)
             else 0);
          targetLevel = effectiveAudioLevel * avatarSensitivity (config s2)
      in s2 \<lparr> smoothedAudioLevel :=
                  smoothedAudioLevel s2 +
                  (targetLevel - smoothedAudioLevel s2) * avatarSmoothing (config s2) \<rparr>)"

definition redrawBackground :: "real \<Rightarrow> real \<Rightarrow> engine \<Rightarrow> engine" where
  "redrawBackground w h s3 =
     (let cur = currentBackgroundConfig (config s3)
      in if backgroundDirty s3 \<or> lastBackgroundConfig s3 \<noteq> Some cur \<or>
            backgroundRotation (config s3) \<or> avatarState (config s3) = Thinking
         then (drawBackground w h s3)
                \<lparr> backgroundDirty := False,
                  lastBackgroundConfig := Some cur,
                  textureNeedsUpdate := True \<rparr>
         else s3)"

definition drawTransition :: "real \<Rightarrow> real \<Rightarrow> engine \<Rightarrow> engine" where
  "drawTransition w h s4 =
     (let cx = w / 2;
          cy = h / 2;
          baseSize = avatarSize (config s4)
      in if stateTransitionProgress s4 = 1
         then drawAvatarState cx cy baseSize w h (targetState s4) 1 s4
         else (let s5 = ctx_call CtxSave s4;
                   s6 = (if currentState s5 \<noteq> targetState s5
                         then drawAvatarState cx cy baseSize w h (currentState s5)
                                (1 - stateTransitionProgress s5)
                                (ctx_call (SetGlobalAlpha (1 - stateTransitionProgress s5)) s5)
                         else s5);
                   s7 = drawAvatarState cx cy baseSize w h (targetState s6)
                          (stateTransitionProgress s6)
                          (ctx_call (SetGlobalAlpha (stateTransitionProgress s6)) s6)
               in ctx_call CtxRestore s7))"

subsection \<open>Observations\<close>

text \<open>How often the background layer has been drawn on the composition canvas.\<close>

fun is_background_call :: "ctx_call \<Rightarrow> bool" where
  "is_background_call (DrawBackground w h) = True"
| "is_background_call other = False"

definition background_draws :: "engine \<Rightarrow> nat" where
  "background_draws s = length (filter is_background_call (ctxLog s))"

text \<open>The condition under which \<open>drawAvatar\<close> redraws the background.\<close>

definition redraw_needed :: "engine \<Rightarrow> bool" where
  "redraw_needed s =
     (backgroundDirty s \<or>
      lastBackgroundConfig s \<noteq> Some (currentBackgroundConfig (config s)) \<or>
      backgroundRotation (config s) \<or> avatarState (config s) = Thinking)"

text \<open>\<open>Math.min(1, elapsed / this.stateTransitionDuration)\<close>.\<close>

definition raw_progress :: "real \<Rightarrow> real" where
  "raw_progress elapsed = min 1 (elapsed / stateTransitionDuration)"

text \<open>The stored shape is one of the two shapes.\<close>

definition shape_defined :: "stored_config \<Rightarrow> bool" where
  "shape_defined c = (avatarShape c = Some Circle \<or> avatarShape c = Some Square)"

text \<open>A width that a canvas keeps, up to truncation.\<close>

definition canvas_range :: "real \<Rightarrow> bool" where
  "canvas_range w = (0 \<le> w \<and> w < 2147483648)"

text \<open>The stored configuration is square.\<close>

definition config_square :: "engine \<Rightarrow> bool" where
  "config_square s = (height (config s) = width (config s))"

text \<open>The surface is square: the stored configuration and both canvases.\<close>

definition square_aspect :: "engine \<Rightarrow> bool" where
  "square_aspect s =
     (height (config s) = width (config s) \<and> canvas_height s = canvas_width s \<and>
      backgroundCanvas_height s = backgroundCanvas_width s)"

text \<open>
  The smoothed level lies between 0 and the sensitivity, the smoothing factor lies in
  \<open>(0, 1]\<close>, and the running transition did not start after the clock reading \<open>t\<close>.
\<close>

definition audio_invariant :: "real \<Rightarrow> engine \<Rightarrow> bool" where
  "audio_invariant t s =
     (0 \<le> smoothedAudioLevel s \<and> smoothedAudioLevel s \<le> avatarSensitivity (config s) \<and>
      0 < avatarSmoothing (config s) \<and> avatarSmoothing (config s) \<le> 1 \<and>
      stateTransitionStartTime s \<le> t)"

text \<open>
  The inputs of a frame are in range: the audio sample lies in \<open>[0, 1]\<close>, and the clock
  does not run backwards (\<open>t\<close> is the last reading before the frame).
\<close>

definition frame_ok :: "real \<Rightarrow> frame \<Rightarrow> bool" where
  "frame_ok t f =
     (0 \<le> audio_level f \<and> audio_level f \<le> 1 \<and>
      t \<le> clock_transition f \<and> clock_transition f \<le> clock_progress f)"

text \<open>
  A sequence of operations whose frames have inputs in range and whose configuration
  patches leave \<open>avatarSensitivity\<close> and \<open>avatarSmoothing\<close> as they are.
\<close>

fun inputs_ok :: "real \<Rightarrow> operation list \<Rightarrow> bool" where
  "inputs_ok t [] = True"
| "inputs_ok t (Tick f # rest) = (frame_ok t f \<and> inputs_ok (clock_progress f) rest)"
| "inputs_ok t (Start f # rest) = (frame_ok t f \<and> inputs_ok (clock_progress f) rest)"
| "inputs_ok t (UpdateConfig c # rest) =
     (p_avatarSensitivity c = None \<and> p_avatarSmoothing c = None \<and> inputs_ok t rest)"
| "inputs_ok t (other # rest) = inputs_ok t rest"

subsection \<open>Sample inputs\<close>

text \<open>\<open>new GlastarJS(canvas)\<close> on a host where construction succeeds.\<close>

definition default_engine :: engine where
  "default_engine = projr (construct good_host empty_config)"

text \<open>The patch \<open>{backgroundRotation: false}\<close>, and the engine constructed with it.\<close>

definition rotation_off :: partial_config where
  "rotation_off = empty_config \<lparr> p_backgroundRotation := Some False \<rparr>"

definition static_engine :: engine where
  "static_engine = projr (construct good_host rotation_off)"

text \<open>An engine in the listening state, constructed with the documented pulse settings.\<close>

definition listening_config :: partial_config where
  "listening_config =
     empty_config \<lparr> p_avatarState := Some Listening, p_backgroundRotation := Some False,
       p_listeningPulseBase := Some 50, p_listeningPulseAmplitude := Some 35,
       p_listeningPulseSpeed := Some (2 / 1000) \<rparr>"

definition listening_engine :: engine where
  "listening_engine = projr (construct good_host listening_config)"

text \<open>\<open>{width: 1000, height: 600, avatarShape: 'circle'}\<close>.\<close>

definition circle_config :: partial_config where
  "circle_config =
     empty_config
       \<lparr> p_width := Some 1000, p_height := Some 600, p_avatarShape := Some (Some Circle) \<rparr>"

definition circle_engine :: engine where
  "circle_engine = projr (construct good_host circle_config)"

text \<open>A partial configuration that passes a falsy value for every key it sets.\<close>

definition zero_config :: partial_config where
  "zero_config =
     empty_config
       \<lparr> p_width := Some 0, p_glassOpacity := Some 0, p_refractionStrength := Some 0,
         p_blurAmount := Some 0, p_fps := Some 0, p_avatarColor := Some [],
         p_avatarSize := Some 0, p_avatarSensitivity := Some 0, p_avatarExpansion := Some 0,
         p_avatarSmoothing := Some 0, p_avatarFadeWithAudio := Some False,
         p_backgroundColor := Some [],
         p_backgroundGradient :=
           Some \<lparr> g_centerColor = Some [], g_edgeColor = Some [], g_angle = Some 0 \<rparr>,
         p_backgroundRotation := Some False, p_backgroundRotationSpeed := Some 0,
         p_backgroundScale := Some 0 \<rparr>"

text \<open>The patch \<open>{backgroundGradient: {edgeColor: y}}\<close>.\<close>

definition edge_patch :: "string \<Rightarrow> partial_config" where
  "edge_patch y =
     empty_config \<lparr> p_backgroundGradient := Some (empty_gradient \<lparr> g_edgeColor := Some y \<rparr>) \<rparr>"

text \<open>A frame with audio level 0.5 and the two clock readings given.\<close>

definition frame_at :: "real \<Rightarrow> real \<Rightarrow> frame" where
  "frame_at t1 t2 = \<lparr> audio_level = 1 / 2, clock_transition = t1, clock_progress = t2 \<rparr>"


text \<open>\<open>{width: -1, avatarShape: 'circle'}\<close>, and the engine constructed with it.\<close>

definition negative_circle_config :: partial_config where
  "negative_circle_config =
     empty_config \<lparr> p_width := Some (- 1), p_avatarShape := Some (Some Circle) \<rparr>"

definition negative_engine :: engine where
  "negative_engine = projr (construct good_host negative_circle_config)"

text \<open>The patch \<open>{width: 1000, height: 600, avatarShape: undefined}\<close>.\<close>

definition shape_erasing_patch :: partial_config where
  "shape_erasing_patch =
     empty_config \<lparr> p_width := Some 1000, p_height := Some 600, p_avatarShape := Some None \<rparr>"

section \<open>Properties\<close>

lemmas construct_defs =
  construct_def setupWebGL_def fresh_engine_def initial_config_def resize_def
  createBackgroundTexture_def good_host_def empty_config_def empty_gradient_def
  num_or_def str_or_def bool_or_def nullish_def createShader_calls_def Let_def
  set_width_def set_height_def canvas_size_def ToUint32_def

lemmas update_defs =
  updateConfig_def merge_config_def merge_gradient_def has_background_key_def
  loadBackgroundImage_def resize_def num_or_def str_or_def nullish_def Let_def
  empty_config_def empty_gradient_def edge_patch_def
  set_width_def set_height_def canvas_size_def ToUint32_def

subsection \<open>Disposal\<close>

lemma stop_isDisposed [simp]: "isDisposed (stop s) = isDisposed s"
  by (simp add: stop_def split: option.splits)

lemma resize_isDisposed [simp]: "isDisposed (resize w h s) = isDisposed s"
  by (simp add: resize_def Let_def)

lemma loadBackgroundImage_isDisposed [simp]:
  "isDisposed (loadBackgroundImage s) = isDisposed s"
  by (simp add: loadBackgroundImage_def split: option.splits)

lemma updateConfig_isDisposed [simp]: "isDisposed (updateConfig c s) = isDisposed s"
  by (simp add: updateConfig_def Let_def split: option.splits)

lemma dispose_isDisposed [simp]: "isDisposed (dispose s)"
  by (simp add: dispose_def Let_def)

lemma render_disposed [simp]: "isDisposed s \<Longrightarrow> render f s = s"
  by (simp add: render_def)

lemma render_no_program [simp]: "program s = None \<Longrightarrow> render f s = s"
  by (simp add: render_def)

lemma apply_operation_isDisposed:
  "isDisposed s \<Longrightarrow> isDisposed (apply_operation operation s)"
  by (cases operation) (simp_all add: start_def connectAudioStream_def)

lemma run_isDisposed: "isDisposed s \<Longrightarrow> isDisposed (run ops s)"
  by (induction ops arbitrary: s) (simp_all add: apply_operation_isDisposed)

lemma run_append: "run (xs @ ys) s = run ys (run xs s)"
  by (induction xs arbitrary: s) simp_all

subsection \<open>Configuration: construction and update\<close>

lemma initial_shape: "shape_defined (initial_config c)"
proof (cases "p_avatarShape c")
  case None
  then show ?thesis by (simp add: shape_defined_def initial_config_def nullish_def Let_def)
next
  case (Some v)
  then show ?thesis
  proof (cases v)
    case None
    with Some show ?thesis
      by (simp add: shape_defined_def initial_config_def nullish_def Let_def)
  next
    case (Some shape)
    with \<open>p_avatarShape c = Some v\<close> show ?thesis
      by (cases shape) (simp_all add: shape_defined_def initial_config_def nullish_def Let_def)
  qed
qed

lemma ToUint32_in_range:
  assumes "canvas_range x"
  shows "ToUint32 x = \<lfloor>x\<rfloor>"
proof -
  from assms have "0 \<le> \<lfloor>x\<rfloor>" by (simp add: canvas_range_def)
  moreover from assms have "\<lfloor>x\<rfloor> < 2147483648"
    by (simp add: canvas_range_def floor_less_iff)
  ultimately show ?thesis using assms by (simp add: ToUint32_def canvas_range_def)
qed

lemma canvas_size_in_range: "canvas_range x \<Longrightarrow> canvas_size d x = \<lfloor>x\<rfloor>"
  by (simp add: canvas_size_def ToUint32_in_range Let_def canvas_range_def floor_less_iff)

lemma resize_config_square:
  "shape_defined (config s) \<Longrightarrow>
     width (config (resize w h s)) = w \<and> height (config (resize w h s)) = w"
  by (auto simp: shape_defined_def resize_def Let_def)

lemma resize_canvases:
  "shape_defined (config s) \<Longrightarrow> canvas_range w \<Longrightarrow>
     canvas_width (resize w h s) = \<lfloor>w\<rfloor> \<and> canvas_height (resize w h s) = \<lfloor>w\<rfloor> \<and>
     backgroundCanvas_width (resize w h s) = \<lfloor>w\<rfloor> \<and>
     backgroundCanvas_height (resize w h s) = \<lfloor>w\<rfloor>"
  by (auto simp: shape_defined_def resize_def Let_def set_width_def set_height_def
        canvas_size_in_range)

lemma resize_square:
  "shape_defined (config s) \<Longrightarrow>
     config_square (resize w h s) \<and> (canvas_range w \<longrightarrow> square_aspect (resize w h s))"
  using resize_config_square[of s w h] resize_canvases[of s w h]
  by (simp add: config_square_def square_aspect_def)

lemma resize_shape [simp]: "avatarShape (config (resize w h s)) = avatarShape (config s)"
  by (simp add: resize_def Let_def)

lemma construct_resized:
  assumes "construct env c = Inr s"
  shows "\<exists>s0. config s0 = initial_config c \<and>
              s = createBackgroundTexture
                    (resize (width (initial_config c)) (Some (height (initial_config c))) s0)"
proof -
  let ?s0 = "(fresh_engine env c)
       \<lparr> program := Some Handle, positionBuffer := Some Handle, texCoordBuffer := Some Handle,
         glLog := glLog (fresh_engine env c) @ createShader_calls @ createShader_calls @
            [CreateProgram, AttachShader, AttachShader, LinkProgram,
             GetProgramParameter, DeleteShader, DeleteShader,
             CreateBuffer, BindBuffer, BufferData,
             CreateBuffer, BindBuffer, BufferData,
             GetUniformLocation ''u_backgroundTexture'',
             GetUniformLocation ''u_resolution'',
             GetUniformLocation ''u_opacity'',
             GetUniformLocation ''u_refraction'',
             GetUniformLocation ''u_texture'',
             GetUniformLocation ''u_blurAmount''] \<rparr>"
  have "config ?s0 = initial_config c" by (simp add: fresh_engine_def)
  moreover from assms have "s = createBackgroundTexture
      (resize (width (initial_config c)) (Some (height (initial_config c))) ?s0)"
    by (auto simp: construct_def setupWebGL_def fresh_engine_def split: if_splits)
  ultimately show ?thesis by blast
qed

lemma createBackgroundTexture_square [simp]:
  "square_aspect (createBackgroundTexture s) = square_aspect s"
  "config (createBackgroundTexture s) = config s"
  by (simp_all add: createBackgroundTexture_def square_aspect_def)

lemma construct_config:
  assumes "construct env c = Inr s"
  shows "config s = (initial_config c) \<lparr> height := width (initial_config c) \<rparr>"
proof -
  from construct_resized[OF assms] obtain s0 where
    s0: "config s0 = initial_config c"
    "s = createBackgroundTexture
           (resize (width (initial_config c)) (Some (height (initial_config c))) s0)"
    by blast
  from initial_shape[of c] s0 show ?thesis
    by (auto simp: shape_defined_def resize_def Let_def)
qed

text \<open>The constructor leaves the rotation speed at 0 when rotation is off.\<close>

lemma constructor_rotation_invariant:
  "construct env c = Inr s \<Longrightarrow> \<not> backgroundRotation (config s) \<Longrightarrow>
     backgroundRotationSpeed (config s) = 0"
  by (auto simp: construct_config initial_config_def nullish_def Let_def split: option.splits)

lemma construct_square:
  assumes "construct env c = Inr s"
  shows "config_square s \<and> (canvas_range (width (config s)) \<longrightarrow> square_aspect s)"
proof -
  from construct_resized[OF assms] obtain s0 where
    s0: "config s0 = initial_config c"
    "s = createBackgroundTexture
           (resize (width (initial_config c)) (Some (height (initial_config c))) s0)"
    by blast
  have sh: "shape_defined (config s0)" using initial_shape[of c] s0 by simp
  have w: "width (config s) = width (initial_config c)"
    by (simp add: construct_config[OF assms])
  from resize_square[OF sh, of "width (initial_config c)" "Some (height (initial_config c))"]
  show ?thesis
    unfolding w using s0(2) by (simp add: config_square_def)
qed

lemma loadBackgroundImage_square [simp]:
  "square_aspect (loadBackgroundImage s) = square_aspect s"
  "config (loadBackgroundImage s) = config s"
  by (simp_all add: loadBackgroundImage_def square_aspect_def split: option.splits)

lemma resize_dirty [simp]: "resize w h (s \<lparr> backgroundDirty := b \<rparr>) = resize w h s"
  by (simp add: resize_def Let_def)

lemma square_aspect_dirty [simp]:
  "square_aspect (s \<lparr> backgroundDirty := b \<rparr>) = square_aspect s"
  by (simp add: square_aspect_def)

lemma updateConfig_resized:
  assumes "p_width c \<noteq> None \<or> p_height c \<noteq> None"
  shows "config (updateConfig c s) =
           config (resize (width (merge_config (config s) c))
              (Some (height (merge_config (config s) c)))
              (s \<lparr> config := merge_config (config s) c \<rparr>))"
    and "square_aspect (updateConfig c s) =
         square_aspect
           (resize (width (merge_config (config s) c))
              (Some (height (merge_config (config s) c)))
              (s \<lparr> config := merge_config (config s) c \<rparr>))"
  using assms
  by (auto simp: updateConfig_def Let_def split: option.splits)

lemma updateConfig_shape:
  "avatarShape (config (updateConfig c s)) = avatarShape (merge_config (config s) c)"
  by (simp add: updateConfig_def Let_def split: option.splits)

lemma updateConfig_square:
  assumes "p_width c \<noteq> None \<or> p_height c \<noteq> None"
    and "shape_defined (config (updateConfig c s))"
  shows "config_square (updateConfig c s) \<and>
         (canvas_range (width (config (updateConfig c s)))
            \<longrightarrow> square_aspect (updateConfig c s))"
proof -
  let ?m = "merge_config (config s) c"
  let ?r = "resize (width ?m) (Some (height ?m)) (s \<lparr> config := ?m \<rparr>)"
  from assms(2) have "shape_defined ?m"
    by (simp add: shape_defined_def updateConfig_shape)
  then have sh: "shape_defined (config (s \<lparr> config := ?m \<rparr>))" by simp
  have w: "width (config (updateConfig c s)) = width ?m"
    using resize_config_square[OF sh, of "width ?m" "Some (height ?m)"]
    by (simp add: updateConfig_resized(1)[OF assms(1)])
  have c: "config_square (updateConfig c s) = config_square ?r"
    by (simp add: config_square_def updateConfig_resized(1)[OF assms(1)])
  from resize_square[OF sh, of "width ?m" "Some (height ?m)"] show ?thesis
    unfolding w c by (simp add: updateConfig_resized(2)[OF assms(1)])
qed

lemma merged_shape:
  assumes "avatarShape (config s) = Some Circle \<or> avatarShape (config s) = Some Square"
    and "p_avatarShape patch \<noteq> Some None"
  shows "shape_defined (config (updateConfig patch s))"
proof (cases "p_avatarShape patch")
  case None
  with assms(1) show ?thesis
    by (simp add: shape_defined_def updateConfig_shape merge_config_def nullish_def)
next
  case (Some v)
  with assms(2) obtain shape where "v = Some shape" by (cases v) auto
  with Some show ?thesis
    by (cases shape)
       (simp_all add: shape_defined_def updateConfig_shape merge_config_def nullish_def)
qed

lemma ceiling_minus_one: "\<lceil>- 1 :: real\<rceil> = - 1"
  using ceiling_of_int[of "- 1", where ?'a = real] by simp


lemma background_draws_config [simp]:
  "background_draws (s \<lparr> config := c \<rparr>) = background_draws s"
  by (simp add: background_draws_def)

lemma updateConfig_avatarColor:
  "updateConfig (empty_config \<lparr> p_avatarColor := Some X \<rparr>) s =
     s \<lparr> config := (config s) \<lparr> avatarColor := X \<rparr> \<rparr>"
  by (simp add: update_defs)

lemma updateConfig_edgeColor:
  "Y \<noteq> [] \<Longrightarrow>
   config (updateConfig (edge_patch Y) s) =
     (config s) \<lparr> backgroundGradient := (backgroundGradient (config s)) \<lparr> edgeColor := Y \<rparr> \<rparr>"
  by (simp add: update_defs)

lemma default_engine_constructed: "construct good_host empty_config = Inr default_engine"
  by (simp add: default_engine_def construct_def setupWebGL_def good_host_def)

subsection \<open>The frame: what each block leaves unchanged\<close>

lemma drawAvatar_stages:
  "drawAvatar audioLevel f s =
     drawTransition (real_of_int (backgroundCanvas_width s))
       (real_of_int (backgroundCanvas_height s))
       (redrawBackground (real_of_int (backgroundCanvas_width s))
          (real_of_int (backgroundCanvas_height s))
          (smoothAudioLevel audioLevel
             (updateStateTransition f
                (s \<lparr> thinkingAnimationTime := thinkingAnimationTime s + 16 \<rparr>))))"
  unfolding drawAvatar_def smoothAudioLevel_def redrawBackground_def drawTransition_def Let_def
  by (rule refl)

lemma drawSpeakingAvatar_fields [simp]:
  "config (drawSpeakingAvatar cx cy b t s) = config s"
  "backgroundDirty (drawSpeakingAvatar cx cy b t s) = backgroundDirty s"
  "lastBackgroundConfig (drawSpeakingAvatar cx cy b t s) = lastBackgroundConfig s"
  "stateTransitionProgress (drawSpeakingAvatar cx cy b t s) = stateTransitionProgress s"
  "stateTransitionStartTime (drawSpeakingAvatar cx cy b t s) = stateTransitionStartTime s"
  "currentState (drawSpeakingAvatar cx cy b t s) = currentState s"
  "targetState (drawSpeakingAvatar cx cy b t s) = targetState s"
  "smoothedAudioLevel (drawSpeakingAvatar cx cy b t s) = smoothedAudioLevel s"
  "background_draws (drawSpeakingAvatar cx cy b t s) = background_draws s"
  "isDisposed (drawSpeakingAvatar cx cy b t s) = isDisposed s"
  by (simp_all add: drawSpeakingAvatar_def drawAvatarCircle_def background_draws_def Let_def)

lemma drawListeningAvatar_fields [simp]:
  "config (drawListeningAvatar cx cy b s) = config s"
  "backgroundDirty (drawListeningAvatar cx cy b s) = backgroundDirty s"
  "lastBackgroundConfig (drawListeningAvatar cx cy b s) = lastBackgroundConfig s"
  "stateTransitionProgress (drawListeningAvatar cx cy b s) = stateTransitionProgress s"
  "stateTransitionStartTime (drawListeningAvatar cx cy b s) = stateTransitionStartTime s"
  "currentState (drawListeningAvatar cx cy b s) = currentState s"
  "targetState (drawListeningAvatar cx cy b s) = targetState s"
  "smoothedAudioLevel (drawListeningAvatar cx cy b s) = smoothedAudioLevel s"
  "background_draws (drawListeningAvatar cx cy b s) = background_draws s"
  "isDisposed (drawListeningAvatar cx cy b s) = isDisposed s"
  by (simp_all add: drawListeningAvatar_def background_draws_def)

lemma drawThinkingAvatar_fields [simp]:
  "config (drawThinkingAvatar cx cy b w h t s) = config s"
  "backgroundDirty (drawThinkingAvatar cx cy b w h t s) = backgroundDirty s"
  "lastBackgroundConfig (drawThinkingAvatar cx cy b w h t s) = lastBackgroundConfig s"
  "stateTransitionProgress (drawThinkingAvatar cx cy b w h t s) = stateTransitionProgress s"
  "stateTransitionStartTime (drawThinkingAvatar cx cy b w h t s) = stateTransitionStartTime s"
  "currentState (drawThinkingAvatar cx cy b w h t s) = currentState s"
  "targetState (drawThinkingAvatar cx cy b w h t s) = targetState s"
  "smoothedAudioLevel (drawThinkingAvatar cx cy b w h t s) = smoothedAudioLevel s"
  "background_draws (drawThinkingAvatar cx cy b w h t s) = background_draws s"
  "isDisposed (drawThinkingAvatar cx cy b w h t s) = isDisposed s"
  by (simp_all add: drawThinkingAvatar_def drawThinkingBorder_def background_draws_def)

lemma drawAvatarState_fields [simp]:
  "config (drawAvatarState cx cy b w h st t s) = config s"
  "backgroundDirty (drawAvatarState cx cy b w h st t s) = backgroundDirty s"
  "lastBackgroundConfig (drawAvatarState cx cy b w h st t s) = lastBackgroundConfig s"
  "stateTransitionProgress (drawAvatarState cx cy b w h st t s) = stateTransitionProgress s"
  "stateTransitionStartTime (drawAvatarState cx cy b w h st t s) = stateTransitionStartTime s"
  "currentState (drawAvatarState cx cy b w h st t s) = currentState s"
  "targetState (drawAvatarState cx cy b w h st t s) = targetState s"
  "smoothedAudioLevel (drawAvatarState cx cy b w h st t s) = smoothedAudioLevel s"
  "background_draws (drawAvatarState cx cy b w h st t s) = background_draws s"
  "isDisposed (drawAvatarState cx cy b w h st t s) = isDisposed s"
  by (cases st; simp)+

lemma drawAvatarState_texture [simp]:
  "textureNeedsUpdate s \<Longrightarrow> textureNeedsUpdate (drawAvatarState cx cy b w h st t s)"
  by (cases st)
     (simp_all add: drawSpeakingAvatar_def drawAvatarCircle_def drawListeningAvatar_def
        drawThinkingAvatar_def Let_def)

lemma ctx_call_fields [simp]:
  "config (ctx_call c s) = config s"
  "backgroundDirty (ctx_call c s) = backgroundDirty s"
  "lastBackgroundConfig (ctx_call c s) = lastBackgroundConfig s"
  "stateTransitionProgress (ctx_call c s) = stateTransitionProgress s"
  "stateTransitionStartTime (ctx_call c s) = stateTransitionStartTime s"
  "currentState (ctx_call c s) = currentState s"
  "targetState (ctx_call c s) = targetState s"
  "smoothedAudioLevel (ctx_call c s) = smoothedAudioLevel s"
  "textureNeedsUpdate (ctx_call c s) = textureNeedsUpdate s"
  "isDisposed (ctx_call c s) = isDisposed s"
  "background_draws (ctx_call c s) = background_draws s + (if is_background_call c then 1 else 0)"
  by (simp_all add: ctx_call_def background_draws_def)

lemma drawBackground_fields [simp]:
  "config (drawBackground w h s) = config s"
  "stateTransitionProgress (drawBackground w h s) = stateTransitionProgress s"
  "stateTransitionStartTime (drawBackground w h s) = stateTransitionStartTime s"
  "currentState (drawBackground w h s) = currentState s"
  "targetState (drawBackground w h s) = targetState s"
  "smoothedAudioLevel (drawBackground w h s) = smoothedAudioLevel s"
  "isDisposed (drawBackground w h s) = isDisposed s"
  "background_draws (drawBackground w h s) = Suc (background_draws s)"
  by (simp_all add: drawBackground_def background_draws_def)

lemma updateStateTransition_fields [simp]:
  "config (updateStateTransition f s) = config s"
  "backgroundDirty (updateStateTransition f s) = backgroundDirty s"
  "lastBackgroundConfig (updateStateTransition f s) = lastBackgroundConfig s"
  "smoothedAudioLevel (updateStateTransition f s) = smoothedAudioLevel s"
  "background_draws (updateStateTransition f s) = background_draws s"
  "isDisposed (updateStateTransition f s) = isDisposed s"
  "targetState (updateStateTransition f s) = avatarState (config s)"
  by (simp_all add: updateStateTransition_def background_draws_def Let_def)

lemma smoothAudioLevel_fields [simp]:
  "config (smoothAudioLevel a s) = config s"
  "backgroundDirty (smoothAudioLevel a s) = backgroundDirty s"
  "lastBackgroundConfig (smoothAudioLevel a s) = lastBackgroundConfig s"
  "stateTransitionProgress (smoothAudioLevel a s) = stateTransitionProgress s"
  "stateTransitionStartTime (smoothAudioLevel a s) = stateTransitionStartTime s"
  "currentState (smoothAudioLevel a s) = currentState s"
  "targetState (smoothAudioLevel a s) = targetState s"
  "background_draws (smoothAudioLevel a s) = background_draws s"
  "isDisposed (smoothAudioLevel a s) = isDisposed s"
  "textureNeedsUpdate (smoothAudioLevel a s) = textureNeedsUpdate s"
  by (simp_all add: smoothAudioLevel_def background_draws_def Let_def)

lemma redrawBackground_fields [simp]:
  "config (redrawBackground w h s) = config s"
  "stateTransitionProgress (redrawBackground w h s) = stateTransitionProgress s"
  "stateTransitionStartTime (redrawBackground w h s) = stateTransitionStartTime s"
  "currentState (redrawBackground w h s) = currentState s"
  "targetState (redrawBackground w h s) = targetState s"
  "smoothedAudioLevel (redrawBackground w h s) = smoothedAudioLevel s"
  "isDisposed (redrawBackground w h s) = isDisposed s"
  "backgroundDirty (redrawBackground w h s) = False"
  "lastBackgroundConfig (redrawBackground w h s) = Some (currentBackgroundConfig (config s))"
  "background_draws (redrawBackground w h s) =
     background_draws s + (if redraw_needed s then 1 else 0)"
  "redraw_needed s \<Longrightarrow> textureNeedsUpdate (redrawBackground w h s)"
  by (auto simp: redrawBackground_def redraw_needed_def drawBackground_def
        background_draws_def Let_def)


lemma drawTransition_fields [simp]:
  "config (drawTransition w h s) = config s"
  "backgroundDirty (drawTransition w h s) = backgroundDirty s"
  "lastBackgroundConfig (drawTransition w h s) = lastBackgroundConfig s"
  "stateTransitionProgress (drawTransition w h s) = stateTransitionProgress s"
  "stateTransitionStartTime (drawTransition w h s) = stateTransitionStartTime s"
  "currentState (drawTransition w h s) = currentState s"
  "targetState (drawTransition w h s) = targetState s"
  "smoothedAudioLevel (drawTransition w h s) = smoothedAudioLevel s"
  "background_draws (drawTransition w h s) = background_draws s"
  "isDisposed (drawTransition w h s) = isDisposed s"
  by (simp_all add: drawTransition_def Let_def)

lemma drawTransition_texture [simp]:
  "textureNeedsUpdate s \<Longrightarrow> textureNeedsUpdate (drawTransition w h s)"
  by (simp add: drawTransition_def Let_def)

lemma advance_fields [simp]:
  "background_draws (s \<lparr> thinkingAnimationTime := t \<rparr>) = background_draws s"
  "redraw_needed (s \<lparr> thinkingAnimationTime := t \<rparr>) = redraw_needed s"
  by (simp_all add: background_draws_def redraw_needed_def)

lemma updateStateTransition_advance:
  "updateStateTransition f (s \<lparr> thinkingAnimationTime := t \<rparr>) =
     (updateStateTransition f s) \<lparr> thinkingAnimationTime := t \<rparr>"
  by (simp add: updateStateTransition_def Let_def)


lemma redraw_needed_stages [simp]:
  "redraw_needed (smoothAudioLevel a s) = redraw_needed s"
  "redraw_needed (updateStateTransition f s) = redraw_needed s"
  by (simp_all add: redraw_needed_def)

lemma drawAvatar_fields [simp]:
  "config (drawAvatar a f s) = config s"
  "isDisposed (drawAvatar a f s) = isDisposed s"
  "backgroundDirty (drawAvatar a f s) = False"
  "lastBackgroundConfig (drawAvatar a f s) = Some (currentBackgroundConfig (config s))"
  "targetState (drawAvatar a f s) = avatarState (config s)"
  by (simp_all add: drawAvatar_stages)




lemma drawAvatar_transition:
  "stateTransitionProgress (drawAvatar a f s) =
     stateTransitionProgress (updateStateTransition f s)"
  "stateTransitionStartTime (drawAvatar a f s) =
     stateTransitionStartTime (updateStateTransition f s)"
  "currentState (drawAvatar a f s) = currentState (updateStateTransition f s)"
  by (simp_all add: drawAvatar_stages updateStateTransition_advance)

lemma drawAvatar_smoothed:
  "smoothedAudioLevel (drawAvatar a f s) =
     smoothedAudioLevel s +
     ((if targetState (drawAvatar a f s) = Speaking then a
       else if currentState (drawAvatar a f s) = Speaking \<and>
               stateTransitionProgress (drawAvatar a f s) < 1
       then a * (1 - stateTransitionProgress (drawAvatar a f s))
       else 0) * avatarSensitivity (config s) - smoothedAudioLevel s) *
     avatarSmoothing (config s)"
  by (simp add: drawAvatar_transition)
     (simp add: drawAvatar_stages smoothAudioLevel_def updateStateTransition_advance)

subsection \<open>The easing curve and the transition progress\<close>

lemma cube_mono: "(x::real) \<le> y \<Longrightarrow> x ^ 3 \<le> y ^ 3"
  by (rule power_mono_odd) simp_all

lemma easeInOutCubic_alt:
  "easeInOutCubic t = (if t < 1 / 2 then 4 * t ^ 3 else 1 - (2 - 2 * t) ^ 3 / 2)"
  by (simp add: easeInOutCubic_def power3_eq_cube)

lemma easeInOutCubic_mono:
  assumes "x \<le> y"
  shows "easeInOutCubic x \<le> easeInOutCubic y"
proof -
  consider "y < 1 / 2" | "x < 1 / 2" "1 / 2 \<le> y" | "1 / 2 \<le> x" by linarith
  then show ?thesis
  proof cases
    case 1
    with assms have "x < 1 / 2" by simp
    with 1 cube_mono[OF assms] show ?thesis by (simp add: easeInOutCubic_alt)
  next
    case 2
    have "x ^ 3 \<le> (1 / 2) ^ 3" using 2(1) by (intro cube_mono) simp
    then have a: "4 * x ^ 3 \<le> 1 / 2" by (simp add: power3_eq_cube)
    have "(2 - 2 * y) ^ 3 \<le> 1 ^ 3" using 2(2) by (intro cube_mono) simp
    then have b: "1 / 2 \<le> 1 - (2 - 2 * y) ^ 3 / 2" by simp
    from a b 2 show ?thesis by (simp add: easeInOutCubic_alt)
  next
    case 3
    with assms have y: "1 / 2 \<le> y" by simp
    have "(2 - 2 * y) ^ 3 \<le> (2 - 2 * x) ^ 3" using assms by (intro cube_mono) simp
    with 3 y show ?thesis by (simp add: easeInOutCubic_alt)
  qed
qed

lemma easeInOutCubic_0: "easeInOutCubic 0 = 0"
  by (simp add: easeInOutCubic_def)

lemma easeInOutCubic_1: "easeInOutCubic 1 = 1"
  by (simp add: easeInOutCubic_def)

lemma raw_progress_mono: "e1 \<le> e2 \<Longrightarrow> raw_progress e1 \<le> raw_progress e2"
  by (simp add: raw_progress_def stateTransitionDuration_def min_def)

lemma progress_after:
  "stateTransitionProgress (updateStateTransition f s) < 1 \<Longrightarrow>
   stateTransitionProgress (updateStateTransition f s) =
     easeInOutCubic (raw_progress
       (clock_progress f - stateTransitionStartTime (updateStateTransition f s)))"
  by (auto simp: updateStateTransition_def raw_progress_def Let_def split: if_splits)

lemma progress_continue:
  "targetState s = avatarState (config s) \<Longrightarrow> stateTransitionProgress s < 1 \<Longrightarrow>
   stateTransitionProgress (updateStateTransition f s) =
     easeInOutCubic (raw_progress (clock_progress f - stateTransitionStartTime s))"
  by (simp add: updateStateTransition_def raw_progress_def Let_def)

lemma progress_settled:
  "targetState s = avatarState (config s) \<Longrightarrow> \<not> stateTransitionProgress s < 1 \<Longrightarrow>
   updateStateTransition f s = s"
  by (simp add: updateStateTransition_def Let_def)

lemma progress_two_frames:
  assumes "clock_progress f1 \<le> clock_progress f2"
  shows "stateTransitionProgress (drawAvatar a1 f1 s) \<le>
         stateTransitionProgress (drawAvatar a2 f2 (drawAvatar a1 f1 s))"
proof -
  let ?s1 = "drawAvatar a1 f1 s"
  have t: "targetState ?s1 = avatarState (config ?s1)" by simp
  show ?thesis
  proof (cases "stateTransitionProgress ?s1 < 1")
    case True
    then have "stateTransitionProgress (updateStateTransition f1 s) < 1"
      by (simp add: drawAvatar_transition)
    from progress_after[OF this]
    have p1: "stateTransitionProgress ?s1 =
        easeInOutCubic (raw_progress (clock_progress f1 - stateTransitionStartTime ?s1))"
      by (simp add: drawAvatar_transition)
    have p2: "stateTransitionProgress (drawAvatar a2 f2 ?s1) =
        easeInOutCubic (raw_progress (clock_progress f2 - stateTransitionStartTime ?s1))"
      using progress_continue[OF t True] by (simp add: drawAvatar_transition(1)[of a2 f2 ?s1])
    from assms show ?thesis
      unfolding p1 p2 by (intro easeInOutCubic_mono raw_progress_mono) simp
  next
    case False
    from progress_settled[OF t False]
    show ?thesis by (simp add: drawAvatar_transition(1)[of a2 f2 ?s1])
  qed
qed

lemma ema_bounds:
  fixes x S \<alpha> e :: real
  assumes "0 \<le> x" "x \<le> S" "0 < \<alpha>" "\<alpha> \<le> 1" "0 \<le> e" "e \<le> 1"
  shows "0 \<le> x + (e * S - x) * \<alpha>" and "x + (e * S - x) * \<alpha> \<le> S"
proof -
  have S: "0 \<le> S" using assms by simp
  have eq: "x + (e * S - x) * \<alpha> = (1 - \<alpha>) * x + \<alpha> * (e * S)"
    by (simp add: algebra_simps)
  have a: "0 \<le> (1 - \<alpha>) * x" using assms by simp
  have b: "0 \<le> \<alpha> * (e * S)" using assms S by simp
  from a b show "0 \<le> x + (e * S - x) * \<alpha>" unfolding eq by simp
  have c: "(1 - \<alpha>) * x \<le> (1 - \<alpha>) * S" using assms by (intro mult_left_mono) simp_all
  have "e * S \<le> 1 * S" using assms S by (intro mult_right_mono) simp_all
  then have d: "\<alpha> * (e * S) \<le> \<alpha> * S" using assms by (intro mult_left_mono) simp_all
  have "(1 - \<alpha>) * S + \<alpha> * S = S" by (simp add: algebra_simps)
  with c d show "x + (e * S - x) * \<alpha> \<le> S" unfolding eq by linarith
qed

subsection \<open>The smoothed audio level\<close>

lemma startTime_after:
  "stateTransitionStartTime s \<le> t \<Longrightarrow> t \<le> clock_transition f \<Longrightarrow>
   clock_transition f \<le> clock_progress f \<Longrightarrow>
   stateTransitionStartTime (updateStateTransition f s) \<le> clock_progress f"
  by (simp add: updateStateTransition_def Let_def)

lemma progress_nonneg:
  assumes "stateTransitionStartTime (updateStateTransition f s) \<le> clock_progress f"
    and "stateTransitionProgress (updateStateTransition f s) < 1"
  shows "0 \<le> stateTransitionProgress (updateStateTransition f s)"
proof -
  have "raw_progress 0 \<le>
        raw_progress (clock_progress f - stateTransitionStartTime (updateStateTransition f s))"
    using assms(1) by (intro raw_progress_mono) simp
  then have "easeInOutCubic (raw_progress 0) \<le>
        easeInOutCubic (raw_progress
          (clock_progress f - stateTransitionStartTime (updateStateTransition f s)))"
    by (rule easeInOutCubic_mono)
  moreover have "easeInOutCubic (raw_progress 0) = 0"
    by (simp add: raw_progress_def easeInOutCubic_0)
  ultimately show ?thesis using progress_after[OF assms(2)] by simp
qed

lemma drawAvatar_invariant:
  assumes inv: "audio_invariant t s"
    and a: "0 \<le> a" "a \<le> 1"
    and clk: "t \<le> clock_transition f" "clock_transition f \<le> clock_progress f"
  shows "audio_invariant (clock_progress f) (drawAvatar a f s)"
proof -
  let ?s' = "drawAvatar a f s"
  let ?e = "if targetState ?s' = Speaking then a
            else if currentState ?s' = Speaking \<and> stateTransitionProgress ?s' < 1
            then a * (1 - stateTransitionProgress ?s') else 0"
  have st: "stateTransitionStartTime ?s' \<le> clock_progress f"
    using startTime_after[OF _ clk] inv
    by (simp add: audio_invariant_def drawAvatar_transition)
  have p: "stateTransitionProgress ?s' < 1 \<Longrightarrow> 0 \<le> stateTransitionProgress ?s'"
    using progress_nonneg[of f s] st by (simp add: drawAvatar_transition)
  have e0: "0 \<le> ?e" using a by simp
  have "a * (1 - stateTransitionProgress ?s') \<le> 1 * 1"
    if "stateTransitionProgress ?s' < 1"
    using a p[OF that] that by (intro mult_mono) simp_all
  then have e1: "?e \<le> 1" using a by simp
  from inv have x: "0 \<le> smoothedAudioLevel s"
      "smoothedAudioLevel s \<le> avatarSensitivity (config s)"
      "0 < avatarSmoothing (config s)" "avatarSmoothing (config s) \<le> 1"
    by (simp_all add: audio_invariant_def)
  have sm: "smoothedAudioLevel ?s' =
      smoothedAudioLevel s +
      (?e * avatarSensitivity (config s) - smoothedAudioLevel s) * avatarSmoothing (config s)"
    by (rule drawAvatar_smoothed)
  from ema_bounds[OF x e0 e1] st x show ?thesis
    unfolding audio_invariant_def sm[symmetric] by simp
qed

lemma audio_invariant_weaken: "audio_invariant t s \<Longrightarrow> t \<le> t' \<Longrightarrow> audio_invariant t' s"
  by (simp add: audio_invariant_def)

lemma render_invariant:
  assumes "audio_invariant t s" "frame_ok t f"
  shows "audio_invariant (clock_progress f) (render f s)"
proof (cases "program s = None \<or> isDisposed s")
  case True
  then have "render f s = s" by (auto simp: render_def)
  with assms show ?thesis
    by (auto simp: frame_ok_def intro: audio_invariant_weaken)
next
  case False
  let ?level = "case audioAnalyzer s of None \<Rightarrow> 0 | Some a \<Rightarrow> audio_level f"
  have l: "0 \<le> ?level" "?level \<le> 1"
    using assms(2) by (simp_all add: frame_ok_def split: option.splits)
  have "audio_invariant (clock_progress f) (drawAvatar ?level f s)"
    using assms l by (intro drawAvatar_invariant[of t]) (simp_all add: frame_ok_def)
  moreover have "audio_invariant (clock_progress f) (render f s) =
                 audio_invariant (clock_progress f) (drawAvatar ?level f s)"
  proof -
    from False obtain y where "program s = Some y" "\<not> isDisposed s" by auto
    then show ?thesis
      by (simp add: render_def audio_invariant_def Let_def requestAnimationFrame_def)
  qed
  ultimately show ?thesis by simp
qed

lemma render_sensitivity [simp]:
  "config (render f s) = config s"
  by (simp add: render_def Let_def requestAnimationFrame_def)


lemma resize_audio_fields [simp]:
  "smoothedAudioLevel (resize w h s) = smoothedAudioLevel s"
  "stateTransitionStartTime (resize w h s) = stateTransitionStartTime s"
  "avatarSensitivity (config (resize w h s)) = avatarSensitivity (config s)"
  "avatarSmoothing (config (resize w h s)) = avatarSmoothing (config s)"
  by (simp_all add: resize_def Let_def)

lemma loadBackgroundImage_audio_fields [simp]:
  "smoothedAudioLevel (loadBackgroundImage s) = smoothedAudioLevel s"
  "stateTransitionStartTime (loadBackgroundImage s) = stateTransitionStartTime s"
  "config (loadBackgroundImage s) = config s"
  by (simp_all add: loadBackgroundImage_def split: option.splits)

lemma updateConfig_audio_fields [simp]:
  "smoothedAudioLevel (updateConfig c s) = smoothedAudioLevel s"
  "stateTransitionStartTime (updateConfig c s) = stateTransitionStartTime s"
  "avatarSensitivity (config (updateConfig c s)) =
     nullish (p_avatarSensitivity c) (avatarSensitivity (config s))"
  "avatarSmoothing (config (updateConfig c s)) =
     nullish (p_avatarSmoothing c) (avatarSmoothing (config s))"
  by (simp_all add: updateConfig_def merge_config_def Let_def split: option.splits)

lemma updateConfig_invariant:
  "p_avatarSensitivity c = None \<Longrightarrow> p_avatarSmoothing c = None \<Longrightarrow>
   audio_invariant t (updateConfig c s) = audio_invariant t s"
  by (simp add: audio_invariant_def nullish_def)


lemma stop_audio_fields [simp]:
  "smoothedAudioLevel (stop s) = smoothedAudioLevel s"
  "stateTransitionStartTime (stop s) = stateTransitionStartTime s"
  "config (stop s) = config s"
  by (simp_all add: stop_def split: option.splits)

lemma dispose_audio_fields [simp]:
  "smoothedAudioLevel (dispose s) = smoothedAudioLevel s"
  "stateTransitionStartTime (dispose s) = stateTransitionStartTime s"
  "config (dispose s) = config s"
  by (simp_all add: dispose_def Let_def)

lemma connectAudioStream_audio_fields [simp]:
  "smoothedAudioLevel (connectAudioStream s) = smoothedAudioLevel s"
  "stateTransitionStartTime (connectAudioStream s) = stateTransitionStartTime s"
  "config (connectAudioStream s) = config s"
  by (simp_all add: connectAudioStream_def)

lemma other_invariant [simp]:
  "audio_invariant t (resize w h s) = audio_invariant t s"
  "audio_invariant t (stop s) = audio_invariant t s"
  "audio_invariant t (dispose s) = audio_invariant t s"
  "audio_invariant t (connectAudioStream s) = audio_invariant t s"
  by (simp_all add: audio_invariant_def)

lemma start_invariant:
  assumes "audio_invariant t s" "frame_ok t f"
  shows "audio_invariant (clock_progress f) (start f s)"
  using render_invariant[OF assms] assms
  by (auto simp: start_def frame_ok_def intro: audio_invariant_weaken)

lemma start_config [simp]: "config (start f s) = config s"
  by (simp add: start_def)

lemma run_invariant:
  "audio_invariant t s \<Longrightarrow> inputs_ok t ops \<Longrightarrow>
   (\<exists>t'. audio_invariant t' (run ops s)) \<and>
   avatarSensitivity (config (run ops s)) = avatarSensitivity (config s)"
proof (induction ops arbitrary: t s)
  case Nil
  then show ?case by auto
next
  case (Cons operation rest)
  show ?case
  proof (cases operation)
    case (UpdateConfig c)
    with Cons.prems have "audio_invariant t (updateConfig c s)" "inputs_ok t rest"
      "avatarSensitivity (config (updateConfig c s)) = avatarSensitivity (config s)"
      by (simp_all add: updateConfig_invariant nullish_def)
    with Cons.IH[of t "updateConfig c s"] UpdateConfig show ?thesis by simp
  next
    case (Resize w h)
    with Cons.prems Cons.IH[of t "resize w h s"] show ?thesis by simp
  next
    case (Start f)
    with Cons.prems have "audio_invariant (clock_progress f) (start f s)"
      "inputs_ok (clock_progress f) rest"
      by (simp_all add: start_invariant)
    with Cons.IH[of "clock_progress f" "start f s"] Start show ?thesis by simp
  next
    case Stop
    with Cons.prems Cons.IH[of t "stop s"] show ?thesis by simp
  next
    case Dispose
    with Cons.prems Cons.IH[of t "dispose s"] show ?thesis by simp
  next
    case ConnectAudioStream
    with Cons.prems Cons.IH[of t "connectAudioStream s"] show ?thesis by simp
  next
    case (Tick f)
    with Cons.prems have "audio_invariant (clock_progress f) (render f s)"
      "inputs_ok (clock_progress f) rest"
      by (simp_all add: render_invariant)
    with Cons.IH[of "clock_progress f" "render f s"] Tick show ?thesis by simp
  qed
qed

text \<open>
  In exact arithmetic, and with clock readings that do not decrease: starting from a
  smoothed level of 0, with a sensitivity that is not negative and a smoothing factor in
  \<open>(0, 1]\<close>, the smoothed level stays in \<open>[0, avatarSensitivity]\<close> through every sequence
  of operations whose frames read samples in \<open>[0, 1]\<close> and whose patches leave the
  sensitivity and the smoothing factor alone.
\<close>

lemma exact_level_bounds:
  assumes "smoothedAudioLevel s = 0"
    and "0 \<le> avatarSensitivity (config s)"
    and "0 < avatarSmoothing (config s)" and "avatarSmoothing (config s) \<le> 1"
    and "stateTransitionStartTime s \<le> t"
    and "inputs_ok t ops"
  shows "0 \<le> smoothedAudioLevel (run ops s) \<and>
         smoothedAudioLevel (run ops s) \<le> avatarSensitivity (config s)"
proof -
  from assms have "audio_invariant t s" by (simp add: audio_invariant_def)
  from run_invariant[OF this assms(6)] show ?thesis
    by (auto simp: audio_invariant_def)
qed

lemmas frame_defs =
  drawAvatar_stages smoothAudioLevel_def redrawBackground_def drawTransition_def
  updateStateTransition_def easeInOutCubic_def stateTransitionDuration_def
  drawBackground_def drawSpeakingAvatar_def drawListeningAvatar_def drawThinkingAvatar_def
  drawThinkingBorder_def drawAvatarCircle_def ctx_call_def currentBackgroundConfig_def
  frame_at_def Let_def

section \<open>The claims\<close>

text \<open>
  Claim C1.  In every sequence of operations that contains \<open>dispose()\<close>, whatever comes
  before it and after it, a tick that fires afterwards leaves the engine state as it is:
  in particular the log of WebGL calls gets no entry (no texture upload, no uniform, no
  draw) and no animation frame is requested.  The same holds for any state whose disposed
  flag is set and for any state whose program handle is null.
\<close>

theorem no_ticks_after_dispose:
  "render f (run (before @ Dispose # after) s) = run (before @ Dispose # after) s \<and>
   glLog (render f (run (before @ Dispose # after) s)) =
     glLog (run (before @ Dispose # after) s) \<and>
   frameRequests (render f (run (before @ Dispose # after) s)) =
     frameRequests (run (before @ Dispose # after) s) \<and>
   render f (s \<lparr> isDisposed := True \<rparr>) = s \<lparr> isDisposed := True \<rparr> \<and>
   render f (s \<lparr> program := None \<rparr>) = s \<lparr> program := None \<rparr>"
proof -
  have "isDisposed (run (before @ Dispose # after) s)"
    by (simp add: run_append run_isDisposed)
  then show ?thesis by simp
qed

text \<open>
  An engine is started (its first tick requests frame 1), disposed (frame 1 is cancelled)
  and resized; the tick that fires afterwards requests no frame.
\<close>

theorem no_ticks_after_dispose_witness:
  "frameRequests
     (render (frame_at 2016 2016)
        (run ([ConnectAudioStream, Start (frame_at 2000 2000)] @ Dispose # [Resize 640 None])
           default_engine)) = 1 \<and>
   frameCancels
     (render (frame_at 2016 2016)
        (run ([ConnectAudioStream, Start (frame_at 2000 2000)] @ Dispose # [Resize 640 None])
           default_engine)) = [1] \<and>
   animationId
     (render (frame_at 2016 2016)
        (run ([ConnectAudioStream, Start (frame_at 2000 2000)] @ Dispose # [Resize 640 None])
           default_engine)) = None"
proof -
  have "frameRequests
          (run ([ConnectAudioStream, Start (frame_at 2000 2000)] @ Dispose # [Resize 640 None])
             default_engine) = 1 \<and>
        frameCancels
          (run ([ConnectAudioStream, Start (frame_at 2000 2000)] @ Dispose # [Resize 640 None])
             default_engine) = [1] \<and>
        animationId
          (run ([ConnectAudioStream, Start (frame_at 2000 2000)] @ Dispose # [Resize 640 None])
             default_engine) = None"
    by (simp add: default_engine_def construct_defs connectAudioStream_def dispose_def
          stop_def start_def render_def requestAnimationFrame_def render_calls_def frame_defs)
  then show ?thesis
    using no_ticks_after_dispose
            [of "frame_at 2016 2016" "[ConnectAudioStream, Start (frame_at 2000 2000)]"
                "[Resize 640 None]" default_engine]
    by simp
qed

text \<open>
  Claim C2, as amended.  \<open>updateConfig({avatarColor: X})\<close> changes the \<open>avatarColor\<close> of
  the stored configuration to \<open>X\<close> and nothing else, in the configuration or in the rest
  of the engine state.  \<open>updateConfig({backgroundGradient: {edgeColor: Y}})\<close> with a
  non-empty \<open>Y\<close> sets the stored \<open>edgeColor\<close> to \<open>Y\<close> and leaves \<open>centerColor\<close>,
  \<open>angle\<close> and every other key of the configuration at their prior values.
\<close>

theorem updateConfig_merge:
  "updateConfig (empty_config \<lparr> p_avatarColor := Some X \<rparr>) s =
     s \<lparr> config := (config s) \<lparr> avatarColor := X \<rparr> \<rparr> \<and>
   (Y \<noteq> [] \<longrightarrow>
      config (updateConfig (edge_patch Y) s) =
        (config s) \<lparr> backgroundGradient :=
                      (backgroundGradient (config s)) \<lparr> edgeColor := Y \<rparr> \<rparr>)"
  using updateConfig_avatarColor[of X s] updateConfig_edgeColor[of Y s] by simp

theorem updateConfig_merge_witness:
  "avatarColor (config (updateConfig (empty_config \<lparr> p_avatarColor := Some ''#ff0000'' \<rparr>)
      default_engine)) = ''#ff0000'' \<and>
   backgroundGradient (config (updateConfig (edge_patch ''#00ff00'') default_engine)) =
     \<lparr> centerColor = ''#4A90E2'', edgeColor = ''#00ff00'', angle = 45 \<rparr>"
proof -
  have "backgroundGradient (config default_engine) =
          \<lparr> centerColor = ''#4A90E2'', edgeColor = ''#1a1a2e'', angle = 45 \<rparr>"
    by (simp add: default_engine_def construct_defs)
  then show ?thesis
    using updateConfig_merge[of "''#ff0000''" default_engine "''#00ff00''"] by simp
qed

text \<open>
  Claim C2 as stated fails for the empty string: the patch
  \<open>{backgroundGradient: {edgeColor: ''}}\<close> on the default engine leaves the stored
  \<open>edgeColor\<close> at its prior value \<open>'#1a1a2e'\<close>, because the merge reads the key with
  \<open>||\<close>.
\<close>

theorem gradient_patch_counterexample:
  "edgeColor (backgroundGradient (config default_engine)) = ''#1a1a2e'' \<and>
   edgeColor (backgroundGradient (config (updateConfig (edge_patch []) default_engine))) =
     ''#1a1a2e'' \<and>
   edgeColor (backgroundGradient (config (updateConfig (edge_patch []) default_engine))) \<noteq> []"
  by (simp add: default_engine_def construct_defs update_defs)

text \<open>
  Claim C4, as amended.  An engine constructed with \<open>avatarShape\<close> \<open>'circle'\<close> or
  \<open>'square'\<close>, whatever the width and height supplied, stores a height equal to the
  width; when that width lies in the range a canvas keeps (from 0 up to, not including,
  \<open>2\<^sup>3\<^sup>1\<close>), the heights of the drawing canvas and of the composition canvas equal
  their widths.  The same holds after \<open>resize(w, h)\<close> on an engine whose stored shape is
  circle or square, and after \<open>updateConfig\<close> on such an engine with a patch that
  carries a width or a height and does not set \<open>avatarShape\<close> to \<open>undefined\<close>.
\<close>

theorem shape_forces_square:
  "(construct env c = Inr s \<and>
    (p_avatarShape c = Some (Some Circle) \<or> p_avatarShape c = Some (Some Square))
      \<longrightarrow> height (config s) = width (config s) \<and>
          (0 \<le> width (config s) \<and> width (config s) < 2147483648
             \<longrightarrow> canvas_height s = canvas_width s \<and>
                 backgroundCanvas_height s = backgroundCanvas_width s)) \<and>
   (avatarShape (config s) = Some Circle \<or> avatarShape (config s) = Some Square
      \<longrightarrow> height (config (resize w h s)) = width (config (resize w h s)) \<and>
          (0 \<le> w \<and> w < 2147483648
             \<longrightarrow> canvas_height (resize w h s) = canvas_width (resize w h s) \<and>
                 backgroundCanvas_height (resize w h s) =
                   backgroundCanvas_width (resize w h s))) \<and>
   ((avatarShape (config s) = Some Circle \<or> avatarShape (config s) = Some Square) \<and>
    p_avatarShape patch \<noteq> Some None \<and>
    (p_width patch \<noteq> None \<or> p_height patch \<noteq> None)
      \<longrightarrow> height (config (updateConfig patch s)) = width (config (updateConfig patch s)) \<and>
          (0 \<le> width (config (updateConfig patch s)) \<and>
           width (config (updateConfig patch s)) < 2147483648
             \<longrightarrow> canvas_height (updateConfig patch s) = canvas_width (updateConfig patch s) \<and>
                 backgroundCanvas_height (updateConfig patch s) =
                   backgroundCanvas_width (updateConfig patch s)))"
proof -
  have 1: "config_square s \<and> (canvas_range (width (config s)) \<longrightarrow> square_aspect s)"
    if "construct env c = Inr s"
    using that by (rule construct_square)
  have 2: "config_square (resize w h s) \<and> (canvas_range w \<longrightarrow> square_aspect (resize w h s))"
    if "avatarShape (config s) = Some Circle \<or> avatarShape (config s) = Some Square"
    using that by (intro resize_square) (simp add: shape_defined_def)
  have 3: "config_square (updateConfig patch s) \<and>
           (canvas_range (width (config (updateConfig patch s)))
              \<longrightarrow> square_aspect (updateConfig patch s))"
    if "avatarShape (config s) = Some Circle \<or> avatarShape (config s) = Some Square"
      "p_avatarShape patch \<noteq> Some None" "p_width patch \<noteq> None \<or> p_height patch \<noteq> None"
    using that by (intro updateConfig_square merged_shape)
  from 1 2 3 show ?thesis
    unfolding config_square_def square_aspect_def canvas_range_def by blast
qed

theorem shape_forces_square_witness:
  "construct good_host circle_config = Inr circle_engine \<and>
   width (config circle_engine) = 1000 \<and> height (config circle_engine) = 1000 \<and>
   canvas_width circle_engine = 1000 \<and> canvas_height circle_engine = 1000 \<and>
   backgroundCanvas_height circle_engine = 1000 \<and>
   height (config (resize 1200 (Some 800) circle_engine)) = 1200 \<and>
   canvas_height (resize 1200 (Some 800) circle_engine) =
     canvas_width (resize 1200 (Some 800) circle_engine) \<and>
   height (config (updateConfig (empty_config \<lparr> p_height := Some 300 \<rparr>) circle_engine)) = 1000 \<and>
   canvas_height (updateConfig (empty_config \<lparr> p_height := Some 300 \<rparr>) circle_engine) =
     canvas_width (updateConfig (empty_config \<lparr> p_height := Some 300 \<rparr>) circle_engine)"
proof -
  have c: "construct good_host circle_config = Inr circle_engine"
    by (simp add: circle_engine_def construct_def setupWebGL_def good_host_def)
  have p: "p_avatarShape circle_config = Some (Some Circle)"
    "p_height (empty_config \<lparr> p_height := Some 300 \<rparr>) \<noteq> None"
    "p_avatarShape (empty_config \<lparr> p_height := Some 300 \<rparr>) \<noteq> Some None"
    by (simp_all add: circle_config_def empty_config_def)
  have w: "width (config circle_engine) = 1000" "canvas_width circle_engine = 1000"
    "backgroundCanvas_width circle_engine = 1000"
    "avatarShape (config circle_engine) = Some Circle"
    by (simp_all add: circle_engine_def circle_config_def construct_defs)
  have u: "width (config (updateConfig (empty_config \<lparr> p_height := Some 300 \<rparr>) circle_engine))
             = 1000"
    "width (config (resize 1200 (Some 800) circle_engine)) = 1200"
    using w by (simp_all add: update_defs)
  show ?thesis
    using shape_forces_square[of good_host circle_config circle_engine 1200 "Some 800"
            "empty_config \<lparr> p_height := Some 300 \<rparr>"] c p w u
    by simp
qed

text \<open>
  Claim C4 as stated fails at two inputs.  Constructed with
  \<open>{width: -1, avatarShape: 'circle'}\<close>, the engine stores width and height -1, but both
  canvases fall back to their defaults, 300 by 150.  On the engine constructed with
  \<open>{width: 1000, height: 600, avatarShape: 'circle'}\<close>, the patch
  \<open>{width: 1000, height: 600, avatarShape: undefined}\<close> erases the stored shape before it
  resizes, and leaves the configuration and the drawing canvas at 1000 by 600.
\<close>

theorem square_canvas_counterexample:
  "construct good_host negative_circle_config = Inr negative_engine \<and>
   width (config negative_engine) = - 1 \<and> height (config negative_engine) = - 1 \<and>
   canvas_width negative_engine = 300 \<and> canvas_height negative_engine = 150 \<and>
   backgroundCanvas_width negative_engine = 300 \<and>
   backgroundCanvas_height negative_engine = 150 \<and>
   width (config (updateConfig shape_erasing_patch circle_engine)) = 1000 \<and>
   height (config (updateConfig shape_erasing_patch circle_engine)) = 600 \<and>
   canvas_width (updateConfig shape_erasing_patch circle_engine) = 1000 \<and>
   canvas_height (updateConfig shape_erasing_patch circle_engine) = 600"
proof -
  have "construct good_host negative_circle_config = Inr negative_engine"
    by (simp add: negative_engine_def construct_def setupWebGL_def good_host_def)
  moreover have "width (config negative_engine) = - 1 \<and> height (config negative_engine) = - 1 \<and>
      canvas_width negative_engine = 300 \<and> canvas_height negative_engine = 150 \<and>
      backgroundCanvas_width negative_engine = 300 \<and>
      backgroundCanvas_height negative_engine = 150"
    by (simp add: negative_engine_def negative_circle_config_def construct_defs
          ceiling_minus_one)
  moreover have "width (config (updateConfig shape_erasing_patch circle_engine)) = 1000 \<and>
      height (config (updateConfig shape_erasing_patch circle_engine)) = 600 \<and>
      canvas_width (updateConfig shape_erasing_patch circle_engine) = 1000 \<and>
      canvas_height (updateConfig shape_erasing_patch circle_engine) = 600"
    by (simp add: circle_engine_def circle_config_def shape_erasing_patch_def construct_defs
          update_defs)
  ultimately show ?thesis by simp
qed



text \<open>
  Claim C6.  The smoothed level after a frame is the level before it, moved by the
  smoothing factor towards the effective sample times the sensitivity, where the effective
  sample is read off the transition state of that frame (the state \<open>updateStateTransition\<close>
  leaves, which is also the state at the end of the frame): the raw sample if the target
  state is speaking; otherwise the raw sample times \<open>1 - transitionProgress\<close> if
  the current state is speaking and the progress is below 1; otherwise 0.
\<close>

theorem effective_audio_level:
  "smoothedAudioLevel (drawAvatar a f s) =
     smoothedAudioLevel s +
     ((if targetState (drawAvatar a f s) = Speaking then a
       else if currentState (drawAvatar a f s) = Speaking \<and>
               stateTransitionProgress (drawAvatar a f s) < 1
       then a * (1 - stateTransitionProgress (drawAvatar a f s))
       else 0) * avatarSensitivity (config s) - smoothedAudioLevel s) *
     avatarSmoothing (config s)"
  by (rule drawAvatar_smoothed)

text \<open>
  Sample 0.5, sensitivity 1, smoothing 0.25, level 0 before the frame.  Speaking: the level
  becomes 0.125.  Half way out of speaking (progress 0.5): 0.0625.  Settled in
  listening: 0.
\<close>

theorem effective_audio_level_witness:
  "smoothedAudioLevel (drawAvatar (1 / 2) (frame_at 2000 2000) default_engine) = 1 / 8 \<and>
   currentState (drawAvatar (1 / 2) (frame_at 2000 2250) listening_engine) = Speaking \<and>
   stateTransitionProgress (drawAvatar (1 / 2) (frame_at 2000 2250) listening_engine) = 1 / 2 \<and>
   smoothedAudioLevel (drawAvatar (1 / 2) (frame_at 2000 2250) listening_engine) = 1 / 16 \<and>
   smoothedAudioLevel (drawAvatar (1 / 2) (frame_at 3000 3000)
      (drawAvatar (1 / 2) (frame_at 2000 2500) listening_engine)) = 0"
proof -
  have d: "smoothedAudioLevel default_engine = 0" "avatarState (config default_engine) = Speaking"
    "avatarSensitivity (config default_engine) = 1"
    "avatarSmoothing (config default_engine) = 1 / 4"
    by (simp_all add: default_engine_def construct_defs)
  have l: "smoothedAudioLevel listening_engine = 0"
    "avatarState (config listening_engine) = Listening"
    "avatarSensitivity (config listening_engine) = 1"
    "avatarSmoothing (config listening_engine) = 1 / 4"
    by (simp_all add: listening_engine_def listening_config_def construct_defs)
  have t: "currentState (drawAvatar (1 / 2) (frame_at 2000 2250) listening_engine) = Speaking"
    "stateTransitionProgress (drawAvatar (1 / 2) (frame_at 2000 2250) listening_engine) = 1 / 2"
    by (simp_all add: drawAvatar_transition listening_engine_def listening_config_def
          construct_defs updateStateTransition_def easeInOutCubic_def
          stateTransitionDuration_def frame_at_def)
  have u: "smoothedAudioLevel (drawAvatar (1 / 2) (frame_at 2000 2500) listening_engine) = 0"
    "currentState (drawAvatar (1 / 2) (frame_at 3000 3000)
       (drawAvatar (1 / 2) (frame_at 2000 2500) listening_engine)) = Listening"
    by (simp_all add: listening_engine_def listening_config_def construct_defs frame_defs)
  show ?thesis
    using effective_audio_level[of "1 / 2" "frame_at 2000 2000" default_engine]
      effective_audio_level[of "1 / 2" "frame_at 2000 2250" listening_engine]
      effective_audio_level[of "1 / 2" "frame_at 3000 3000"
        "drawAvatar (1 / 2) (frame_at 2000 2500) listening_engine"]
      d l t u
    by simp
qed

text \<open>
  Claim C7.  The ease-in-out-cubic curve is monotone non-decreasing (on all reals, so on
  \<open>[0, 1]\<close>), the raw progress \<open>min(1, elapsed / duration)\<close> is non-decreasing in the
  elapsed time, the eased value is 0 at raw progress 0 and 1 at raw progress 1, and the
  stored transition progress does not decrease from one frame to the next (with no
  configuration change in between, so that no new transition starts) when the clock
  reading of the later frame is not before that of the earlier one; once it has reached 1
  it stays there.
\<close>

theorem transition_monotone:
  "(x \<le> y \<longrightarrow> easeInOutCubic x \<le> easeInOutCubic y) \<and>
   (e1 \<le> e2 \<longrightarrow> min 1 (e1 / stateTransitionDuration) \<le> min 1 (e2 / stateTransitionDuration)) \<and>
   easeInOutCubic 0 = 0 \<and> easeInOutCubic 1 = 1 \<and>
   (clock_progress f1 \<le> clock_progress f2 \<longrightarrow>
      stateTransitionProgress (drawAvatar a1 f1 s) \<le>
      stateTransitionProgress (drawAvatar a2 f2 (drawAvatar a1 f1 s)))"
  using easeInOutCubic_mono[of x y] raw_progress_mono[of e1 e2] easeInOutCubic_0
    easeInOutCubic_1 progress_two_frames[of f1 f2 a1 s a2]
  by (simp add: raw_progress_def)

theorem transition_monotone_witness:
  "easeInOutCubic (1 / 4) \<le> easeInOutCubic (3 / 4) \<and>
   min 1 (100 / stateTransitionDuration) \<le> min 1 (300 / stateTransitionDuration) \<and>
   stateTransitionProgress (drawAvatar (1 / 2) (frame_at 2000 2100) listening_engine) \<le>
   stateTransitionProgress (drawAvatar (1 / 2) (frame_at 2300 2300)
      (drawAvatar (1 / 2) (frame_at 2000 2100) listening_engine))"
  using transition_monotone[of "1 / 4" "3 / 4" 100 300 "frame_at 2000 2100" "frame_at 2300 2300"
          "1 / 2" listening_engine "1 / 2"]
  by (simp add: frame_at_def)

text \<open>
  Claim C8.  What the code does in the listening state.  The engine is constructed in the
  listening state with the documented pulse settings (base 50, amplitude 35, speed 0.002).
  The first frame completes the transition and draws the background; the second frame,
  half a second later, adds no call on the composition canvas.  After both frames the only
  call ever made on the canvas is the one background draw: no glow is rendered, at any
  width; the texture is marked for upload.
\<close>

theorem listening_draws_no_glow:
  "construct good_host listening_config = Inr listening_engine \<and>
   ctxLog (drawAvatar (1 / 2) (frame_at 2000 2500) listening_engine) = [DrawBackground 800 800] \<and>
   targetState (drawAvatar (1 / 2) (frame_at 2000 2500) listening_engine) = Listening \<and>
   stateTransitionProgress (drawAvatar (1 / 2) (frame_at 2000 2500) listening_engine) = 1 \<and>
   ctxLog (drawAvatar (1 / 2) (frame_at 3000 3000)
             (drawAvatar (1 / 2) (frame_at 2000 2500) listening_engine))
     = [DrawBackground 800 800] \<and>
   textureNeedsUpdate (drawAvatar (1 / 2) (frame_at 3000 3000)
             (drawAvatar (1 / 2) (frame_at 2000 2500) listening_engine))"
  by (simp add: listening_engine_def listening_config_def construct_defs frame_defs)

text \<open>The second frame adds nothing to the canvas log of the first.\<close>

theorem listening_draws_no_glow_witness:
  "ctxLog (drawAvatar (1 / 2) (frame_at 3000 3000)
             (drawAvatar (1 / 2) (frame_at 2000 2500) listening_engine)) =
   ctxLog (drawAvatar (1 / 2) (frame_at 2000 2500) listening_engine)"
  using listening_draws_no_glow by simp

text \<open>
  Claim C9.  What the code does when rotation is switched off by a patch.  The default
  engine stores rotation on with speed 10; after \<open>updateConfig({backgroundRotation: false})\<close>
  it stores rotation off and still speed 10, whereas the constructor given the same
  object stores speed 0.
\<close>

theorem updateConfig_keeps_rotation_speed:
  "construct good_host empty_config = Inr default_engine \<and>
   backgroundRotation (config default_engine) = True \<and>
   backgroundRotationSpeed (config default_engine) = 10 \<and>
   backgroundRotation (config (updateConfig rotation_off default_engine)) = False \<and>
   backgroundRotationSpeed (config (updateConfig rotation_off default_engine)) = 10 \<and>
   construct good_host rotation_off = Inr static_engine \<and>
   backgroundRotationSpeed (config static_engine) = 0"
  by (simp add: default_engine_def static_engine_def rotation_off_def construct_defs
        update_defs)

text \<open>After the patch the stored configuration has rotation off and a speed that is not 0.\<close>

theorem updateConfig_keeps_rotation_speed_witness:
  "\<not> backgroundRotation (config (updateConfig rotation_off default_engine)) \<and>
   backgroundRotationSpeed (config (updateConfig rotation_off default_engine)) \<noteq> 0"
  using updateConfig_keeps_rotation_speed by simp

text \<open>
  Claim C10, as amended.  When construction succeeds, a supplied 0 is replaced by the
  default for every numeric key read with \<open>||\<close> other than the height (width 800,
  glassOpacity 0.95, refractionStrength 1, blurAmount 3, fps 60, avatarSize 80,
  avatarSensitivity 1, avatarExpansion 2, avatarSmoothing 0.25, backgroundScale 1), and a
  supplied empty string by the default colour (avatar, background and both gradient
  colours); the keys read with \<open>??\<close>, which are
  \<open>backgroundGradient.angle\<close>, \<open>backgroundRotation\<close> and \<open>backgroundRotationSpeed\<close>, keep
  a supplied 0 or false.
\<close>

theorem constructor_falsy_defaults:
  assumes "construct env c = Inr s"
  shows "(p_width c = Some 0 \<longrightarrow> width (config s) = 800) \<and>
         (p_glassOpacity c = Some 0 \<longrightarrow> glassOpacity (config s) = 95 / 100) \<and>
         (p_refractionStrength c = Some 0 \<longrightarrow> refractionStrength (config s) = 1) \<and>
         (p_blurAmount c = Some 0 \<longrightarrow> blurAmount (config s) = 3) \<and>
         (p_fps c = Some 0 \<longrightarrow> fps (config s) = 60) \<and>
         (p_avatarSize c = Some 0 \<longrightarrow> avatarSize (config s) = 80) \<and>
         (p_avatarSensitivity c = Some 0 \<longrightarrow> avatarSensitivity (config s) = 1) \<and>
         (p_avatarExpansion c = Some 0 \<longrightarrow> avatarExpansion (config s) = 2) \<and>
         (p_avatarSmoothing c = Some 0 \<longrightarrow> avatarSmoothing (config s) = 25 / 100) \<and>
         (p_backgroundScale c = Some 0 \<longrightarrow> backgroundScale (config s) = 1) \<and>
         (p_avatarColor c = Some [] \<longrightarrow> avatarColor (config s) = ''#4A90E2'') \<and>
         (p_backgroundColor c = Some [] \<longrightarrow> backgroundColor (config s) = ''#000000'') \<and>
         (p_avatarFadeWithAudio c = Some False \<longrightarrow> avatarFadeWithAudio (config s) = False) \<and>
         (p_backgroundRotation c = Some False \<longrightarrow> backgroundRotation (config s) = False) \<and>
         (p_backgroundRotationSpeed c = Some 0 \<longrightarrow> backgroundRotationSpeed (config s) = 0) \<and>
         (\<forall>g. p_backgroundGradient c = Some g \<and> g_centerColor g = Some []
              \<longrightarrow> centerColor (backgroundGradient (config s)) = ''#4A90E2'') \<and>
         (\<forall>g. p_backgroundGradient c = Some g \<and> g_edgeColor g = Some []
              \<longrightarrow> edgeColor (backgroundGradient (config s)) = ''#1a1a2e'') \<and>
         (\<forall>g. p_backgroundGradient c = Some g \<and> g_angle g = Some 0
              \<longrightarrow> angle (backgroundGradient (config s)) = 0)"
  by (simp add: construct_config[OF assms] initial_config_def num_or_def str_or_def
        bool_or_def nullish_def Let_def)

theorem constructor_falsy_defaults_witness:
  "construct good_host zero_config = Inr (projr (construct good_host zero_config)) \<and>
   width (config (projr (construct good_host zero_config))) = 800 \<and>
   glassOpacity (config (projr (construct good_host zero_config))) = 95 / 100 \<and>
   avatarSize (config (projr (construct good_host zero_config))) = 80 \<and>
   blurAmount (config (projr (construct good_host zero_config))) = 3 \<and>
   avatarSensitivity (config (projr (construct good_host zero_config))) = 1 \<and>
   backgroundScale (config (projr (construct good_host zero_config))) = 1 \<and>
   avatarColor (config (projr (construct good_host zero_config))) = ''#4A90E2'' \<and>
   backgroundRotation (config (projr (construct good_host zero_config))) = False \<and>
   backgroundRotationSpeed (config (projr (construct good_host zero_config))) = 0 \<and>
   edgeColor (backgroundGradient (config (projr (construct good_host zero_config)))) =
     ''#1a1a2e'' \<and>
   angle (backgroundGradient (config (projr (construct good_host zero_config)))) = 0"
proof -
  have c: "construct good_host zero_config = Inr (projr (construct good_host zero_config))"
    by (simp add: construct_def setupWebGL_def good_host_def)
  have z: "p_width zero_config = Some 0"
    "p_glassOpacity zero_config = Some 0" "p_avatarSize zero_config = Some 0"
    "p_blurAmount zero_config = Some 0" "p_avatarSensitivity zero_config = Some 0"
    "p_backgroundScale zero_config = Some 0" "p_avatarColor zero_config = Some []"
    "p_backgroundRotation zero_config = Some False"
    "p_backgroundRotationSpeed zero_config = Some 0"
    "p_backgroundGradient zero_config =
       Some \<lparr> g_centerColor = Some [], g_edgeColor = Some [], g_angle = Some 0 \<rparr>"
    by (simp_all add: zero_config_def empty_config_def)
  show ?thesis
    using constructor_falsy_defaults[OF c] c z by simp
qed

text \<open>
  Claim C10 as stated fails at two inputs.  \<open>{backgroundRotationSpeed: 0}\<close> is stored as
  speed 0, not the default 10: a third key keeps a falsy input.  \<open>{height: 0}\<close> is stored
  as height 800, the width, not the documented default 600: the constructor ends with
  \<open>resize\<close>, and the stored shape is always circle or square.
\<close>

theorem falsy_defaults_counterexample:
  "construct good_host (empty_config \<lparr> p_backgroundRotationSpeed := Some 0 \<rparr>) =
     Inr (default_engine
            \<lparr> config := (config default_engine) \<lparr> backgroundRotationSpeed := 0 \<rparr> \<rparr>) \<and>
   backgroundRotationSpeed (config default_engine) = 10 \<and>
   construct good_host (empty_config \<lparr> p_height := Some 0 \<rparr>) = Inr default_engine \<and>
   height (config default_engine) = 800"
  by (simp add: default_engine_def construct_defs)

end
